theory Spec2Isabelle
  imports Complex_Main "HOL-Library.Sublist" "HOL-Library.AList" "HOL-Library.Monad_Syntax"
begin

section \<open>Values, plain objects and themes\<close>

text \<open>
  The generator (\<^verbatim>\<open>scripts/generate.js\<close>) works on the parsed theme object. Its JSDoc
  types give the data model: a colour value is \<^verbatim>\<open>string|null|undefined\<close>, the palette
  groups are arrays of strings, a token colour has an optional name, an array of scopes
  and a settings object with the optional entries foreground, background and fontStyle.
\<close>

datatype jsval = Undefined | Null | Str string

text \<open>
  A plain object with string keys is the list of its own properties in insertion order.
  Reading a property that is absent gives \<^verbatim>\<open>undefined\<close>; an assignment keeps the place of
  a property that exists and appends a new one; \<^verbatim>\<open>delete\<close> removes the property.
\<close>

type_synonym js_object = "(string \<times> jsval) list"

definition object_keys :: "js_object \<Rightarrow> string list" where
  "object_keys obj = map fst obj"

definition js_get :: "js_object \<Rightarrow> string \<Rightarrow> jsval" where
  "js_get obj key = (case map_of obj key of None \<Rightarrow> Undefined | Some v \<Rightarrow> v)"

definition js_set :: "js_object \<Rightarrow> string \<Rightarrow> jsval \<Rightarrow> js_object" where
  "js_set obj key v = AList.update key v obj"

definition js_delete :: "js_object \<Rightarrow> string \<Rightarrow> js_object" where
  "js_delete obj key = AList.delete key obj"

text \<open>An object has each key once.\<close>

definition wf_object :: "js_object \<Rightarrow> bool" where
  "wf_object obj = distinct (object_keys obj)"

text \<open>
  \<^verbatim>\<open>Object.assign(target, source)\<close> assigns the properties of the source to the target
  one after the other, in the order of the source.
\<close>

definition object_assign :: "js_object \<Rightarrow> js_object \<Rightarrow> js_object" where
  "object_assign target source = fold (\<lambda>(key, v) acc. js_set acc key v) source target"

record token_settings =
  foreground :: jsval
  background :: jsval
  fontStyle :: jsval

record token_color =
  name :: jsval
  scope :: "string list"
  settings :: token_settings

record dracula_vars =
  base :: "string list"
  ansi :: "string list"
  brightOther :: "string list"
  other :: "string list"

record theme =
  dracula :: dracula_vars
  colors :: js_object
  tokenColors :: "token_color list"

subsection \<open>The deep copy \<^verbatim>\<open>JSON.parse(JSON.stringify(theme))\<close>\<close>

text \<open>
  \<^verbatim>\<open>JSON.stringify\<close> leaves out every property of an object whose value is
  \<^verbatim>\<open>undefined\<close> and writes strings and \<^verbatim>\<open>null\<close> as they are. In the records above an
  optional entry that is absent is \<open>Undefined\<close>, and it reads as \<open>Undefined\<close> again
  after the copy, so only the colour mapping, whose keys are data, changes shape.
\<close>

definition json_copy_object :: "js_object \<Rightarrow> js_object" where
  "json_copy_object obj = filter (\<lambda>(key, v). v \<noteq> Undefined) obj"

definition json_copy :: "theme \<Rightarrow> theme" where
  "json_copy t = t\<lparr>colors := json_copy_object (colors t)\<rparr>"

section \<open>The soft variant\<close>

text \<open>
  \<^verbatim>\<open>brightColors.includes(v)\<close> on an array of strings: true exactly for a string that
  is an element of the array (comparison of strings is by value and case-sensitive).
\<close>

fun includes_val :: "string list \<Rightarrow> jsval \<Rightarrow> bool" where
  "includes_val xs (Str s) = (s \<in> set xs)"
| "includes_val xs Undefined = False"
| "includes_val xs Null = False"

text \<open>
  The library call \<^verbatim>\<open>tinycolor(v).desaturate(20).toHexString()\<close> belongs to the package
  tinycolor2, which is not part of the repository; it is the parameter \<open>desat\<close>
  of the transform, a function from the value passed in to the string returned.
\<close>

text \<open>\<^verbatim>\<open>[...soft.dracula.ansi, ...soft.dracula.brightOther]\<close>\<close>

definition brightColors :: "theme \<Rightarrow> string list" where
  "brightColors t = ansi (dracula t) @ brightOther (dracula t)"

definition soft_color_step :: "(jsval \<Rightarrow> string) \<Rightarrow> string list \<Rightarrow> string \<Rightarrow> js_object \<Rightarrow> js_object" where
  "soft_color_step desat bright key cs =
     (if includes_val bright (js_get cs key)
      then js_set cs key (Str (desat (js_get cs key)))
      else cs)"

definition soft_colors :: "(jsval \<Rightarrow> string) \<Rightarrow> string list \<Rightarrow> js_object \<Rightarrow> js_object" where
  "soft_colors desat bright cs = fold (soft_color_step desat bright) (object_keys cs) cs"

definition soft_token :: "(jsval \<Rightarrow> string) \<Rightarrow> string list \<Rightarrow> token_color \<Rightarrow> token_color" where
  "soft_token desat bright v =
     (if includes_val bright (foreground (settings v))
      then v\<lparr>settings := (settings v)\<lparr>foreground := Str (desat (foreground (settings v)))\<rparr>\<rparr>
      else v)"

definition transformSoft :: "(jsval \<Rightarrow> string) \<Rightarrow> theme \<Rightarrow> theme" where
  "transformSoft desat t =
     (let soft = json_copy t;
          bright = brightColors soft;
          soft = soft\<lparr>colors := soft_colors desat bright (colors soft)\<rparr>
      in soft\<lparr>tokenColors := map (soft_token desat bright) (tokenColors soft)\<rparr>)"

section \<open>The high-contrast variant\<close>

definition bgKeys :: "string list" where
  "bgKeys =
    [''activityBar.background'',
     ''breadcrumb.background'',
     ''debugToolBar.background'',
     ''editor.background'',
     ''editorGutter.background'',
     ''editorGroup.background'',
     ''editorGroupHeader.tabsBackground'',
     ''editorGroupHeader.noTabsBackground'',
     ''editorHoverWidget.background'',
     ''editorMarkerNavigation.background'',
     ''editorSuggestWidget.background'',
     ''editorWidget.background'',
     ''input.background'',
     ''list.activeSelectionBackground'',
     ''list.dropBackground'',
     ''list.focusBackground'',
     ''list.hoverBackground'',
     ''list.inactiveSelectionBackground'',
     ''menu.background'',
     ''panel.background'',
     ''peekViewEditor.background'',
     ''peekViewResult.background'',
     ''peekViewTitle.background'',
     ''pickerGroup.border'',
     ''quickInput.background'',
     ''scrollbarSlider.background'',
     ''scrollbarSlider.hoverBackground'',
     ''scrollbarSlider.activeBackground'',
     ''settings.checkboxBackground'',
     ''settings.dropdownBackground'',
     ''settings.numberInputBackground'',
     ''settings.textInputBackground'',
     ''sideBar.background'',
     ''sideBarSectionHeader.background'',
     ''statusBar.background'',
     ''statusBar.noFolderBackground'',
     ''statusBar.debuggingBackground'',
     ''tab.activeBackground'',
     ''tab.inactiveBackground'',
     ''tab.unfocusedActiveBackground'',
     ''terminal.background'',
     ''titleBar.activeBackground'',
     ''titleBar.inactiveBackground'',
     ''walkThrough.embeddedEditorBackground'',
     ''welcomePage.background'',
     ''window.activeBorder'']"

text \<open>
  \<^verbatim>\<open>key.startsWith(s)\<close>, \<^verbatim>\<open>key.endsWith(s)\<close> and \<^verbatim>\<open>key.includes(s)\<close> on strings:
  \<open>s\<close> stands at the start of \<open>key\<close>, at its end, or somewhere in it.
\<close>

fun startsWith :: "string \<Rightarrow> string \<Rightarrow> bool" where
  "startsWith key [] = True"
| "startsWith [] (c # s) = False"
| "startsWith (k # key) (c # s) = (k = c \<and> startsWith key s)"

definition endsWith :: "string \<Rightarrow> string \<Rightarrow> bool" where
  "endsWith key s = startsWith (rev key) (rev s)"

fun includes_str :: "string \<Rightarrow> string \<Rightarrow> bool" where
  "includes_str [] s = (s = [])"
| "includes_str (k # key) s = (startsWith (k # key) s \<or> includes_str key s)"

definition is_background_key :: "string \<Rightarrow> bool" where
  "is_background_key key =
     (key \<in> set bgKeys \<or> endsWith key ''background'' \<or> endsWith key ''Background'')"

definition exempt :: "string \<Rightarrow> bool" where
  "exempt key =
     (if includes_str key ''selection'' \<or> includes_str key ''Selection'' then True
      else if includes_str key ''button'' then True
      else if includes_str key ''Badge'' then True
      else if includes_str key ''diffEditor'' then True
      else if includes_str key ''merge'' then True
      else if includes_str key ''highlight'' then True
      else if includes_str key ''OverviewRuler'' then True
      else False)"

definition sweep_step :: "string \<Rightarrow> js_object \<Rightarrow> js_object" where
  "sweep_step key cs =
     (if is_background_key key
      then (if exempt key then cs else js_set cs key (Str ''#000000''))
      else cs)"

definition sweep :: "js_object \<Rightarrow> js_object" where
  "sweep cs = fold sweep_step (object_keys cs) cs"

text \<open>
  The object literal \<^verbatim>\<open>overrides\<close>: its properties as they are written, and the object
  they make. A literal defines its properties one after the other, so a key written
  twice would keep its last value.
\<close>

definition overrides_literal :: "(string \<times> jsval) list" where
  "overrides_literal =
    [(''focusBorder'', Str ''#FFFFFF''),
     (''contrastBorder'', Str ''#FFFFFF''),
     (''contrastActiveBorder'', Str ''#FF79C6''),
     (''editor.background'', Str ''#000000''),
     (''editor.foreground'', Str ''#FFFFFF''),
     (''foreground'', Str ''#FFFFFF''),
     (''descriptionForeground'', Str ''#FFFFFF''),
     (''errorForeground'', Str ''#FF5555''),
     (''editor.selectionBackground'', Str ''#FFFFFF''),
     (''editor.selectionForeground'', Str ''#000000''),
     (''selection.background'', Str ''#000099''),
     (''widget.shadow'', Str ''#000000''),
     (''tab.activeBackground'', Str ''#000000''),
     (''tab.activeBorder'', Str ''#FF79C6''),
     (''tab.activeForeground'', Str ''#FFFFFF''),
     (''tab.border'', Str ''#FFFFFF''),
     (''tab.inactiveBackground'', Str ''#000000''),
     (''tab.inactiveForeground'', Str ''#FFFFFF''),
     (''sideBar.background'', Str ''#000000''),
     (''sideBar.border'', Str ''#FFFFFF''),
     (''sideBarTitle.foreground'', Str ''#FFFFFF''),
     (''activityBar.background'', Str ''#000000''),
     (''activityBar.border'', Str ''#FFFFFF''),
     (''activityBar.foreground'', Str ''#FFFFFF''),
     (''activityBar.activeBorder'', Str ''#FF79C6''),
     (''editorGroup.border'', Str ''#FFFFFF''),
     (''editorGroupHeader.tabsBackground'', Str ''#000000''),
     (''editorGroupHeader.tabsBorder'', Str ''#FFFFFF''),
     (''panel.background'', Str ''#000000''),
     (''panel.border'', Str ''#FFFFFF''),
     (''panelTitle.activeBorder'', Str ''#FF79C6''),
     (''panelTitle.activeForeground'', Str ''#FFFFFF''),
     (''panelTitle.inactiveForeground'', Str ''#FFFFFF''),
     (''titleBar.activeBackground'', Str ''#000000''),
     (''titleBar.activeForeground'', Str ''#FFFFFF''),
     (''titleBar.inactiveBackground'', Str ''#000000''),
     (''titleBar.inactiveForeground'', Str ''#FFFFFF''),
     (''titleBar.border'', Str ''#FFFFFF''),
     (''statusBar.background'', Str ''#000000''),
     (''statusBar.border'', Str ''#FFFFFF''),
     (''statusBar.foreground'', Str ''#FFFFFF''),
     (''statusBar.debuggingBackground'', Str ''#000000''),
     (''statusBar.debuggingBorder'', Str ''#FF5555''),
     (''terminal.background'', Str ''#000000''),
     (''terminal.border'', Str ''#FFFFFF''),
     (''breadcrumb.background'', Str ''#000000''),
     (''breadcrumb.foreground'', Str ''#FFFFFF''),
     (''breadcrumbPicker.background'', Str ''#000000''),
     (''sideBarSectionHeader.background'', Str ''#000000''),
     (''sideBarSectionHeader.foreground'', Str ''#FFFFFF''),
     (''sideBarSectionHeader.border'', Str ''#FFFFFF''),
     (''button.background'', Str ''#000000''),
     (''button.foreground'', Str ''#FFFFFF''),
     (''button.border'', Str ''#FFFFFF''),
     (''button.separator'', Str ''#FFFFFF''),
     (''button.hoverBackground'', Str ''#44475A''),
     (''button.secondaryBackground'', Str ''#000000''),
     (''button.secondaryForeground'', Str ''#FFFFFF''),
     (''button.secondaryHoverBackground'', Str ''#44475A''),
     (''dropdown.background'', Str ''#000000''),
     (''dropdown.border'', Str ''#FFFFFF''),
     (''dropdown.foreground'', Str ''#FFFFFF''),
     (''quickInput.background'', Str ''#000000''),
     (''pickerGroup.border'', Str ''#FFFFFF''),
     (''pickerGroup.foreground'', Str ''#FFFFFF''),
     (''editorWidget.background'', Str ''#000000''),
     (''editorWidget.border'', Str ''#FFFFFF''),
     (''editorWidget.foreground'', Str ''#FFFFFF''),
     (''editorSuggestWidget.background'', Str ''#000000''),
     (''editorSuggestWidget.border'', Str ''#FFFFFF''),
     (''editorSuggestWidget.foreground'', Str ''#FFFFFF''),
     (''editorHoverWidget.background'', Str ''#000000''),
     (''editorHoverWidget.border'', Str ''#FFFFFF''),
     (''editorHoverWidget.foreground'', Str ''#FFFFFF''),
     (''debugToolBar.background'', Str ''#000000''),
     (''debugToolBar.border'', Str ''#FFFFFF''),
     (''notificationCenter.border'', Str ''#FFFFFF''),
     (''notificationCenterHeader.background'', Str ''#000000''),
     (''notificationCenterHeader.foreground'', Str ''#FFFFFF''),
     (''notificationToast.border'', Str ''#FFFFFF''),
     (''notifications.background'', Str ''#000000''),
     (''notifications.foreground'', Str ''#FFFFFF''),
     (''notifications.border'', Str ''#FFFFFF''),
     (''menu.background'', Str ''#000000''),
     (''menu.foreground'', Str ''#FFFFFF''),
     (''menu.selectionBackground'', Str ''#FFFFFF''),
     (''menu.selectionForeground'', Str ''#000000''),
     (''menu.border'', Str ''#FFFFFF''),
     (''menu.separatorBackground'', Str ''#FFFFFF''),
     (''peekView.border'', Str ''#FFFFFF''),
     (''peekViewEditor.background'', Str ''#000000''),
     (''peekViewEditor.matchHighlightBackground'', Str ''#FFFFFF''),
     (''peekViewResult.background'', Str ''#000000''),
     (''peekViewResult.fileForeground'', Str ''#FFFFFF''),
     (''peekViewResult.lineForeground'', Str ''#FFFFFF''),
     (''peekViewResult.matchHighlightBackground'', Str ''#FFFFFF''),
     (''peekViewResult.selectionBackground'', Str ''#FFFFFF''),
     (''peekViewResult.selectionForeground'', Str ''#000000''),
     (''peekViewTitle.background'', Str ''#000000''),
     (''peekViewTitleDescription.foreground'', Str ''#FFFFFF''),
     (''peekViewTitleLabel.foreground'', Str ''#FFFFFF''),
     (''settings.checkboxBackground'', Str ''#000000''),
     (''settings.checkboxForeground'', Str ''#FFFFFF''),
     (''settings.checkboxBorder'', Str ''#FFFFFF''),
     (''settings.dropdownBackground'', Str ''#000000''),
     (''settings.dropdownForeground'', Str ''#FFFFFF''),
     (''settings.dropdownBorder'', Str ''#FFFFFF''),
     (''settings.headerForeground'', Str ''#FFFFFF''),
     (''settings.modifiedItemIndicator'', Str ''#FF79C6''),
     (''settings.numberInputBackground'', Str ''#000000''),
     (''settings.numberInputForeground'', Str ''#FFFFFF''),
     (''settings.numberInputBorder'', Str ''#FFFFFF''),
     (''settings.textInputBackground'', Str ''#000000''),
     (''settings.textInputForeground'', Str ''#FFFFFF''),
     (''settings.textInputBorder'', Str ''#FFFFFF''),
     (''activityBarBadge.background'', Str ''#000000''),
     (''activityBarBadge.foreground'', Str ''#FFFFFF''),
     (''badge.background'', Str ''#000000''),
     (''badge.foreground'', Str ''#FFFFFF''),
     (''scrollbarSlider.background'', Str ''#FFFFFF60''),
     (''scrollbarSlider.activeBackground'', Str ''#FFFFFF''),
     (''scrollbarSlider.hoverBackground'', Str ''#FFFFFF''),
     (''input.background'', Str ''#000000''),
     (''input.foreground'', Str ''#FFFFFF''),
     (''input.border'', Str ''#FFFFFF''),
     (''diffEditor.insertedTextBackground'', Str ''#003500''),
     (''diffEditor.insertedTextBorder'', Str ''#50FA7B''),
     (''diffEditor.removedTextBackground'', Str ''#350000''),
     (''diffEditor.removedTextBorder'', Str ''#FF5555''),
     (''merge.currentHeaderBackground'', Str ''#000000''),
     (''merge.currentContentBackground'', Str ''#000000''),
     (''merge.incomingHeaderBackground'', Str ''#000000''),
     (''merge.incomingContentBackground'', Str ''#000000''),
     (''merge.border'', Str ''#FFFFFF''),
     (''merge.commonHeaderBackground'', Str ''#000000''),
     (''merge.commonContentBackground'', Str ''#000000''),
     (''list.activeSelectionBackground'', Str ''#000000''),
     (''list.activeSelectionForeground'', Str ''#FFFFFF''),
     (''list.focusOutline'', Str ''#FF79C6''),
     (''list.hoverBackground'', Str ''#000000''),
     (''list.hoverForeground'', Str ''#FFFFFF''),
     (''textPreformat.foreground'', Str ''#FFFFFF''),
     (''textPreformat.background'', Str ''#282A36''),
     (''textCodeBlock.background'', Str ''#000000''),
     (''textLink.foreground'', Str ''#8BE9FD''),
     (''textLink.activeForeground'', Str ''#8BE9FD''),
     (''textBlockQuote.background'', Str ''#000000''),
     (''textBlockQuote.border'', Str ''#FFFFFF''),
     (''textSeparator.foreground'', Str ''#FFFFFF''),
     (''keybindingLabel.background'', Str ''#000000''),
     (''keybindingLabel.foreground'', Str ''#FFFFFF''),
     (''keybindingLabel.border'', Str ''#FFFFFF''),
     (''keybindingLabel.bottomBorder'', Str ''#FFFFFF'')]"

definition overrides :: js_object where
  "overrides = object_assign [] overrides_literal"

definition transformHighContrast :: "theme \<Rightarrow> theme" where
  "transformHighContrast t =
     (let hc = json_copy t;
          hc = hc\<lparr>colors := sweep (colors hc)\<rparr>
      in hc\<lparr>colors := object_assign (colors hc) overrides\<rparr>)"

section \<open>Loading: sanitation and the three variants\<close>

fun falsy :: "jsval \<Rightarrow> bool" where
  "falsy Undefined = True"
| "falsy Null = True"
| "falsy (Str s) = (s = [])"

definition sanitize_step :: "string \<Rightarrow> js_object \<Rightarrow> js_object" where
  "sanitize_step key cs = (if falsy (js_get cs key) then js_delete cs key else cs)"

definition sanitize :: "js_object \<Rightarrow> js_object" where
  "sanitize cs = fold sanitize_step (object_keys cs) cs"

record variants =
  v_base :: theme
  v_soft :: theme
  v_hc :: theme

text \<open>
  The exported function, from the theme that \<^verbatim>\<open>load\<close> returned on: the loop that removes
  the falsy colours changes \<open>base\<close> in place, and the two transforms get the result.
\<close>

definition generate :: "(jsval \<Rightarrow> string) \<Rightarrow> theme \<Rightarrow> variants" where
  "generate desat loaded =
     (let base = loaded\<lparr>colors := sanitize (colors loaded)\<rparr>
      in \<lparr>v_base = base, v_soft = transformSoft desat base, v_hc = transformHighContrast base\<rparr>)"

section \<open>The \<^verbatim>\<open>!alpha\<close> tag of the schema\<close>

text \<open>
  \<^verbatim>\<open>hexRGB + alpha\<close> on values that are strings, \<^verbatim>\<open>null\<close> or \<^verbatim>\<open>undefined\<close>: when one
  operand is a string the other is written out and the two are joined; otherwise both
  become numbers (\<^verbatim>\<open>null\<close> is 0, \<^verbatim>\<open>undefined\<close> is NaN) and are added.
\<close>

datatype jsprim = PStr string | PNum int | PNaN

fun to_string :: "jsval \<Rightarrow> string" where
  "to_string Undefined = ''undefined''"
| "to_string Null = ''null''"
| "to_string (Str s) = s"

fun js_plus :: "jsval \<Rightarrow> jsval \<Rightarrow> jsprim" where
  "js_plus (Str a) y = PStr (a @ to_string y)"
| "js_plus x (Str b) = PStr (to_string x @ b)"
| "js_plus Null Null = PNum 0"
| "js_plus x y = PNaN"

text \<open>The array pattern \<^verbatim>\<open>[hexRGB, alpha]\<close>: an element the array does not have is \<^verbatim>\<open>undefined\<close>.\<close>

definition element :: "jsval list \<Rightarrow> nat \<Rightarrow> jsval" where
  "element xs i = (if i < length xs then xs ! i else Undefined)"

text \<open>
  A type of the schema for nodes of kind sequence, as \<^verbatim>\<open>new Type(tag, options)\<close> of the
  package js-yaml keeps it: the option \<^verbatim>\<open>resolve\<close> may be missing, and then every node of
  the kind is accepted. The loader, on a node with an explicit tag, refuses a node of
  another kind, refuses a node that \<^verbatim>\<open>resolve\<close> rejects, and otherwise returns what
  \<^verbatim>\<open>construct\<close> makes of the node's data. The elements of a sequence are taken to be
  strings or \<^verbatim>\<open>null\<close>, as the colours are.
\<close>

record sequence_type =
  type_tag :: string
  type_resolve :: "(jsval list \<Rightarrow> bool) option"
  type_construct :: "jsval list \<Rightarrow> jsprim"

datatype yaml_node = Scalar string | Sequence "jsval list" | Mapping js_object

datatype yaml_error = YAMLException

definition construct_tagged :: "sequence_type \<Rightarrow> yaml_node \<Rightarrow> yaml_error + jsprim" where
  "construct_tagged ty node =
     (case node of
        Sequence xs \<Rightarrow>
          (if (case type_resolve ty of None \<Rightarrow> True | Some accepts \<Rightarrow> accepts xs)
           then Inr (type_construct ty xs)
           else Inl YAMLException)
      | Scalar s \<Rightarrow> Inl YAMLException
      | Mapping m \<Rightarrow> Inl YAMLException)"

definition withAlphaType :: sequence_type where
  "withAlphaType =
     \<lparr>type_tag = ''!alpha'',
      type_resolve = None,
      type_construct = (\<lambda>xs. js_plus (element xs 0) (element xs 1))\<rparr>"

section \<open>Hex colours in HSL\<close>

text \<open>
  What a colour written \<^verbatim>\<open>#RRGGBB\<close> is in HSL: the three channels as fractions of 255
  and the usual hue (in degrees), saturation and lightness of them, in exact rational
  arithmetic. A string of another shape is no such colour. This is the reading under
  which two hex strings are compared; the package that computes with floating point
  numbers stays the parameter \<open>desat\<close>.
\<close>

type_synonym rgb = "nat \<times> nat \<times> nat"









section \<open>The themes as objects in a store\<close>

text \<open>
  The transforms change objects in place, so for the question of what they change the
  objects live in a store: a list of cells, an object's reference being its index. A
  cell is one object or array of a theme: an array of strings (a palette group, the
  scopes of a token colour), the object of the palette groups, the colour mapping, the
  settings of a token colour, a token colour, the array of the token colours, and the
  theme itself. Creating an object appends a cell.
\<close>

type_synonym addr = nat

datatype cell =
    StrArr "string list"
  | DraculaObj addr addr addr addr
  | ColorsObj js_object
  | SettingsObj token_settings
  | TokenObj jsval addr addr
  | TokenArr "addr list"
  | ThemeObj addr addr addr

type_synonym heap = "cell list"

definition heap_lookup :: "heap \<Rightarrow> addr \<Rightarrow> cell option" where
  "heap_lookup h a = (if a < length h then Some (h ! a) else None)"

definition alloc :: "heap \<Rightarrow> cell \<Rightarrow> heap \<times> addr" where
  "alloc h c = (h @ [c], length h)"

fun refs_of :: "cell \<Rightarrow> addr list" where
  "refs_of (StrArr xs) = []"
| "refs_of (DraculaObj b a br ot) = [b, a, br, ot]"
| "refs_of (ColorsObj cs) = []"
| "refs_of (SettingsObj s) = []"
| "refs_of (TokenObj n sc st) = [sc, st]"
| "refs_of (TokenArr rs) = rs"
| "refs_of (ThemeObj d c tk) = [d, c, tk]"

text \<open>What can be reached from an object by following references.\<close>

inductive reachable :: "heap \<Rightarrow> addr \<Rightarrow> addr \<Rightarrow> bool" for h :: heap and a :: addr where
  reach_self: "reachable h a a"
| reach_step: "reachable h a b \<Longrightarrow> heap_lookup h b = Some c \<Longrightarrow> x \<in> set (refs_of c) \<Longrightarrow>
     reachable h a x"

code_pred reachable .

subsection \<open>Reading a theme: what \<^verbatim>\<open>JSON.stringify\<close> walks through\<close>

definition strings_cell :: "heap \<Rightarrow> addr \<Rightarrow> string list option" where
  "strings_cell h a = (case heap_lookup h a of Some (StrArr xs) \<Rightarrow> Some xs | _ \<Rightarrow> None)"

definition colors_cell :: "heap \<Rightarrow> addr \<Rightarrow> js_object option" where
  "colors_cell h a = (case heap_lookup h a of Some (ColorsObj cs) \<Rightarrow> Some cs | _ \<Rightarrow> None)"

definition settings_cell :: "heap \<Rightarrow> addr \<Rightarrow> token_settings option" where
  "settings_cell h a = (case heap_lookup h a of Some (SettingsObj s) \<Rightarrow> Some s | _ \<Rightarrow> None)"

definition token_cell :: "heap \<Rightarrow> addr \<Rightarrow> (jsval \<times> addr \<times> addr) option" where
  "token_cell h a = (case heap_lookup h a of Some (TokenObj n sc st) \<Rightarrow> Some (n, sc, st) | _ \<Rightarrow> None)"

definition tokens_cell :: "heap \<Rightarrow> addr \<Rightarrow> addr list option" where
  "tokens_cell h a = (case heap_lookup h a of Some (TokenArr rs) \<Rightarrow> Some rs | _ \<Rightarrow> None)"

definition theme_cell :: "heap \<Rightarrow> addr \<Rightarrow> (addr \<times> addr \<times> addr) option" where
  "theme_cell h a = (case heap_lookup h a of Some (ThemeObj d c tk) \<Rightarrow> Some (d, c, tk) | _ \<Rightarrow> None)"

definition read_dracula :: "heap \<Rightarrow> addr \<Rightarrow> dracula_vars option" where
  "read_dracula h a =
     (case heap_lookup h a of
        Some (DraculaObj b an br ot) \<Rightarrow>
          do {
            bs \<leftarrow> strings_cell h b;
            ans \<leftarrow> strings_cell h an;
            brs \<leftarrow> strings_cell h br;
            ots \<leftarrow> strings_cell h ot;
            Some \<lparr>base = bs, ansi = ans, brightOther = brs, other = ots\<rparr>
          }
      | _ \<Rightarrow> None)"

definition read_token :: "heap \<Rightarrow> addr \<Rightarrow> token_color option" where
  "read_token h a =
     do {
       (n, sc, st) \<leftarrow> token_cell h a;
       scs \<leftarrow> strings_cell h sc;
       s \<leftarrow> settings_cell h st;
       Some \<lparr>name = n, scope = scs, settings = s\<rparr>
     }"

fun read_token_list :: "heap \<Rightarrow> addr list \<Rightarrow> token_color list option" where
  "read_token_list h [] = Some []"
| "read_token_list h (r # rs) =
     do {
       v \<leftarrow> read_token h r;
       vs \<leftarrow> read_token_list h rs;
       Some (v # vs)
     }"

definition read_theme :: "heap \<Rightarrow> addr \<Rightarrow> theme option" where
  "read_theme h a =
     do {
       (d, c, tk) \<leftarrow> theme_cell h a;
       dv \<leftarrow> read_dracula h d;
       cs \<leftarrow> colors_cell h c;
       rs \<leftarrow> tokens_cell h tk;
       vs \<leftarrow> read_token_list h rs;
       Some \<lparr>dracula = dv, colors = cs, tokenColors = vs\<rparr>
     }"

subsection \<open>Building a theme: the objects \<^verbatim>\<open>JSON.parse\<close> creates\<close>

definition alloc_dracula :: "heap \<Rightarrow> dracula_vars \<Rightarrow> heap \<times> addr" where
  "alloc_dracula h dv =
     (let (h, b) = alloc h (StrArr (base dv));
          (h, an) = alloc h (StrArr (ansi dv));
          (h, br) = alloc h (StrArr (brightOther dv));
          (h, ot) = alloc h (StrArr (other dv))
      in alloc h (DraculaObj b an br ot))"

definition alloc_token :: "heap \<Rightarrow> token_color \<Rightarrow> heap \<times> addr" where
  "alloc_token h v =
     (let (h, sc) = alloc h (StrArr (scope v));
          (h, st) = alloc h (SettingsObj (settings v))
      in alloc h (TokenObj (name v) sc st))"

fun alloc_token_list :: "heap \<Rightarrow> token_color list \<Rightarrow> heap \<times> addr list" where
  "alloc_token_list h [] = (h, [])"
| "alloc_token_list h (v # vs) =
     (let (h, r) = alloc_token h v;
          (h, rs) = alloc_token_list h vs
      in (h, r # rs))"

definition alloc_theme :: "heap \<Rightarrow> theme \<Rightarrow> heap \<times> addr" where
  "alloc_theme h t =
     (let (h, d) = alloc_dracula h (dracula t);
          (h, c) = alloc h (ColorsObj (colors t));
          (h, rs) = alloc_token_list h (tokenColors t);
          (h, tk) = alloc h (TokenArr rs)
      in alloc h (ThemeObj d c tk))"

subsection \<open>The transforms on the store\<close>

text \<open>
  \<^verbatim>\<open>JSON.parse(JSON.stringify(theme))\<close> reads the theme and builds the objects of the
  copy. Each round of a loop over the colours reads the object \<^verbatim>\<open>soft.colors\<close>
  (\<^verbatim>\<open>hc.colors\<close>) and may assign to one of its properties; \<^verbatim>\<open>Object.assign\<close> assigns
  to the properties of its target one after the other. The callback of \<^verbatim>\<open>map\<close>
  assigns to \<^verbatim>\<open>value.settings.foreground\<close> of each rule and returns the rule; \<^verbatim>\<open>map\<close>
  returns a new array of the same rules, which is stored in \<^verbatim>\<open>soft.tokenColors\<close>. The
  arrays \<^verbatim>\<open>brightColors\<close> and \<^verbatim>\<open>bgKeys\<close> and the object \<^verbatim>\<open>overrides\<close> are local and
  are never stored in a theme; they stay values.
\<close>

fun object_loop_heap :: "('a \<Rightarrow> js_object \<Rightarrow> js_object) \<Rightarrow> addr \<Rightarrow> 'a list \<Rightarrow> heap \<Rightarrow> heap option" where
  "object_loop_heap step c [] h = Some h"
| "object_loop_heap step c (x # xs) h =
     do {
       cs \<leftarrow> colors_cell h c;
       object_loop_heap step c xs (h[c := ColorsObj (step x cs)])
     }"

definition soft_settings :: "(jsval \<Rightarrow> string) \<Rightarrow> string list \<Rightarrow> token_settings \<Rightarrow> token_settings" where
  "soft_settings desat bright s =
     (if includes_val bright (foreground s)
      then s\<lparr>foreground := Str (desat (foreground s))\<rparr>
      else s)"

fun soft_tokens_heap :: "(jsval \<Rightarrow> string) \<Rightarrow> string list \<Rightarrow> addr list \<Rightarrow> heap \<Rightarrow> heap option" where
  "soft_tokens_heap desat bright [] h = Some h"
| "soft_tokens_heap desat bright (r # rs) h =
     do {
       (n, sc, st) \<leftarrow> token_cell h r;
       s \<leftarrow> settings_cell h st;
       soft_tokens_heap desat bright rs (h[st := SettingsObj (soft_settings desat bright s)])
     }"

definition transformSoft_heap :: "(jsval \<Rightarrow> string) \<Rightarrow> heap \<Rightarrow> addr \<Rightarrow> (heap \<times> addr) option" where
  "transformSoft_heap desat h theme =
     do {
       t \<leftarrow> read_theme h theme;
       let (h, soft) = alloc_theme h (json_copy t);
       (d, c, tk) \<leftarrow> theme_cell h soft;
       dv \<leftarrow> read_dracula h d;
       let bright = ansi dv @ brightOther dv;
       cs \<leftarrow> colors_cell h c;
       h \<leftarrow> object_loop_heap (soft_color_step desat bright) c (object_keys cs) h;
       (d, c, tk) \<leftarrow> theme_cell h soft;
       rs \<leftarrow> tokens_cell h tk;
       h \<leftarrow> soft_tokens_heap desat bright rs h;
       let (h, arr) = alloc h (TokenArr rs);
       (d, c, tk) \<leftarrow> theme_cell h soft;
       Some (h[soft := ThemeObj d c arr], soft)
     }"

definition transformHighContrast_heap :: "heap \<Rightarrow> addr \<Rightarrow> (heap \<times> addr) option" where
  "transformHighContrast_heap h theme =
     do {
       t \<leftarrow> read_theme h theme;
       let (h, hc) = alloc_theme h (json_copy t);
       (d, c, tk) \<leftarrow> theme_cell h hc;
       cs \<leftarrow> colors_cell h c;
       h \<leftarrow> object_loop_heap sweep_step c (object_keys cs) h;
       (d, c, tk) \<leftarrow> theme_cell h hc;
       h \<leftarrow> object_loop_heap (\<lambda>(key, v) cs. js_set cs key v) c overrides h;
       Some (h, hc)
     }"

subsection \<open>The cells of a theme built at the end of a store\<close>

text \<open>
  The cells that building a theme appends to a store of \<open>n\<close> cells, with the
  reference that the theme keeps to the array of its token colours as a parameter.
\<close>

fun token_cells :: "addr \<Rightarrow> token_color list \<Rightarrow> cell list" where
  "token_cells m [] = []"
| "token_cells m (v # vs) =
     StrArr (scope v) # SettingsObj (settings v) # TokenObj (name v) m (m + 1)
       # token_cells (m + 3) vs"

fun token_refs :: "addr \<Rightarrow> token_color list \<Rightarrow> addr list" where
  "token_refs m [] = []"
| "token_refs m (v # vs) = (m + 2) # token_refs (m + 3) vs"

definition dracula_cells :: "addr \<Rightarrow> dracula_vars \<Rightarrow> cell list" where
  "dracula_cells n dv =
     [StrArr (base dv), StrArr (ansi dv), StrArr (brightOther dv), StrArr (other dv),
      DraculaObj n (n + 1) (n + 2) (n + 3)]"

definition theme_cells :: "addr \<Rightarrow> theme \<Rightarrow> addr \<Rightarrow> cell list" where
  "theme_cells n t tk =
     dracula_cells n (dracula t) @ ColorsObj (colors t) # token_cells (n + 6) (tokenColors t)
       @ [TokenArr (token_refs (n + 6) (tokenColors t)), ThemeObj (n + 4) (n + 5) tk]"

definition tokens_addr :: "addr \<Rightarrow> theme \<Rightarrow> addr" where
  "tokens_addr n t = n + 6 + 3 * length (tokenColors t)"

definition theme_addr :: "addr \<Rightarrow> theme \<Rightarrow> addr" where
  "theme_addr n t = n + 7 + 3 * length (tokenColors t)"

section \<open>Sample inputs\<close>

text \<open>
  A small theme in the shape of the palette file, as \<^verbatim>\<open>load\<close> returns it: one colour
  is null, one is the empty string, two carry an alpha suffix.
\<close>

definition sample_loaded :: theme where
  "sample_loaded =
     \<lparr>dracula = \<lparr>base = [''#282A36'', ''#F8F8F2'', ''#44475A''],
                  ansi = [''#21222C'', ''#FF5555'', ''#6272A4''],
                  brightOther = [''#E9F284''],
                  other = [''#44475A'']\<rparr>,
      colors =
        [(''editor.background'', Str ''#282A36''),
         (''button.background'', Str ''#6272A4''),
         (''statusBar.foreground'', Str ''#FF5555''),
         (''editorGutter.background'', Str ''#282A36''),
         (''scrollbarSlider.background'', Str ''#44475A80''),
         (''editor.findMatchBackground'', Str ''#FF555580''),
         (''editor.selectionBackground'', Str ''#44475A''),
         (''editorCursor.background'', Null),
         (''tab.activeBorderTop'', Str [])],
      tokenColors =
        [\<lparr>name = Str ''Comments'', scope = [''comment''],
          settings = \<lparr>foreground = Str ''#6272A4'', background = Undefined,
                      fontStyle = Str ''italic''\<rparr>\<rparr>,
         \<lparr>name = Undefined, scope = [''string''],
          settings = \<lparr>foreground = Str ''#F1FA8C'', background = Undefined,
                      fontStyle = Undefined\<rparr>\<rparr>]\<rparr>"

text \<open>A stand-in for the library call, to run the transforms on the sample.\<close>

definition sample_desaturate :: "jsval \<Rightarrow> string" where
  "sample_desaturate v = (if v = Str ''#FF5555'' then ''#ee6666'' else ''#7b7f8b'')"

definition sample_base :: theme where
  "sample_base = v_base (generate sample_desaturate sample_loaded)"

text \<open>A theme with one token colour, as objects in a store; the theme is the last cell.\<close>

definition sample_small :: theme where
  "sample_small =
     \<lparr>dracula = \<lparr>base = [''#282A36''], ansi = [''#FF5555''], brightOther = [], other = []\<rparr>,
      colors = [(''editor.background'', Str ''#282A36''), (''statusBar.foreground'', Str ''#FF5555'')],
      tokenColors =
        [\<lparr>name = Str ''Invalid'', scope = [''invalid''],
          settings = \<lparr>foreground = Str ''#FF5555'', background = Undefined,
                      fontStyle = Undefined\<rparr>\<rparr>]\<rparr>"

definition sample_store :: heap where
  "sample_store =
     [StrArr [''#282A36''], StrArr [''#FF5555''], StrArr [], StrArr [],
      DraculaObj 0 1 2 3,
      ColorsObj [(''editor.background'', Str ''#282A36''), (''statusBar.foreground'', Str ''#FF5555'')],
      StrArr [''invalid''],
      SettingsObj \<lparr>foreground = Str ''#FF5555'', background = Undefined, fontStyle = Undefined\<rparr>,
      TokenObj (Str ''Invalid'') 6 7,
      TokenArr [8],
      ThemeObj 4 5 9]"

section \<open>Facts about the model\<close>

subsection \<open>The string predicates\<close>

lemma startsWith_prefix: "startsWith key s = prefix s key"
  by (induction key s rule: startsWith.induct) auto

lemma endsWith_suffix: "endsWith key s = suffix s key"
  by (simp add: endsWith_def startsWith_prefix suffix_to_prefix)

lemma includes_str_sublist: "includes_str key s = sublist s key"
  by (induction key) (auto simp: startsWith_prefix sublist_Cons_right)

subsection \<open>Objects\<close>

lemma map_of_js_set: "map_of (js_set obj key v) = (map_of obj)(key \<mapsto> v)"
  by (simp add: js_set_def update_conv')

lemma map_of_js_delete: "map_of (js_delete obj key) = (map_of obj)(key := None)"
  by (simp add: js_delete_def delete_conv')

lemma keys_js_set: "set (object_keys (js_set obj key v)) = insert key (set (object_keys obj))"
  by (auto simp: js_set_def object_keys_def update_keys)

lemma wf_js_set: "wf_object obj \<Longrightarrow> wf_object (js_set obj key v)"
  by (simp add: wf_object_def object_keys_def js_set_def distinct_update)

lemma js_get_js_set: "js_get (js_set obj key v) k = (if k = key then v else js_get obj k)"
  by (simp add: js_get_def map_of_js_set)

lemma in_keys_iff: "key \<in> set (object_keys obj) \<longleftrightarrow> map_of obj key \<noteq> None"
  by (simp add: object_keys_def map_of_eq_None_iff)

lemma object_assign_Cons:
  "object_assign target ((key, v) # source) = object_assign (js_set target key v) source"
  by (simp add: object_assign_def)

lemma map_of_object_assign:
  "map_of (object_assign target source) = map_of target ++ map_of (rev source)"
proof (induction source arbitrary: target)
  case Nil
  show ?case by (simp add: object_assign_def)
next
  case (Cons p source)
  obtain key v where p: "p = (key, v)" by (cases p)
  show ?case
    unfolding p object_assign_Cons Cons.IH
    by (auto simp: map_of_js_set map_add_def split: option.splits)
qed

lemma wf_object_assign: "wf_object target \<Longrightarrow> wf_object (object_assign target source)"
proof (induction source arbitrary: target)
  case Nil
  then show ?case by (simp add: object_assign_def)
next
  case (Cons p source)
  obtain key v where p: "p = (key, v)" by (cases p)
  show ?case
    unfolding p object_assign_Cons using Cons by (simp add: wf_js_set)
qed

lemma map_of_rev_distinct: "distinct (map fst ps) \<Longrightarrow> map_of (rev ps) = map_of ps"
proof (induction ps)
  case Nil
  show ?case by simp
next
  case (Cons p ps)
  then have "fst p \<notin> dom (map_of ps)" by (simp add: dom_map_of_conv_image_fst)
  then show ?case
    using Cons by (auto simp: map_add_def fun_eq_iff split: option.splits)
qed

lemma map_of_assign_wf:
  "wf_object source \<Longrightarrow> map_of (object_assign target source) = map_of target ++ map_of source"
  by (simp add: map_of_object_assign map_of_rev_distinct wf_object_def object_keys_def)

lemma map_of_overrides: "map_of overrides = map_of (rev overrides_literal)"
  by (simp add: overrides_def map_of_object_assign)

lemma wf_overrides: "wf_object overrides"
  unfolding overrides_def by (rule wf_object_assign) (simp add: wf_object_def object_keys_def)

subsection \<open>The deep copy\<close>

lemma map_of_json_copy_object_Some:
  "map_of obj key = Some v \<Longrightarrow> v \<noteq> Undefined \<Longrightarrow> map_of (json_copy_object obj) key = Some v"
  unfolding json_copy_object_def by (rule map_of_filter_in) simp_all

lemma map_of_json_copy_object_None:
  "map_of obj key = None \<Longrightarrow> map_of (json_copy_object obj) key = None"
  by (auto simp: json_copy_object_def map_of_eq_None_iff)

lemma json_copy_object_values:
  "map_of (json_copy_object obj) key = Some v \<Longrightarrow> v \<noteq> Undefined"
  by (auto simp: json_copy_object_def dest!: map_of_SomeD)

lemma wf_json_copy_object: "wf_object obj \<Longrightarrow> wf_object (json_copy_object obj)"
  by (simp add: wf_object_def object_keys_def json_copy_object_def distinct_map_filter)

subsection \<open>The sweep\<close>

lemma map_of_sweep_step:
  "map_of (sweep_step k cs) key =
     (if key = k \<and> is_background_key k \<and> \<not> exempt k then Some (Str ''#000000'')
      else map_of cs key)"
  by (simp add: sweep_step_def map_of_js_set)

lemma map_of_fold_sweep:
  "map_of (fold sweep_step ks cs) key =
     (if key \<in> set ks \<and> is_background_key key \<and> \<not> exempt key then Some (Str ''#000000'')
      else map_of cs key)"
proof (induction ks arbitrary: cs)
  case Nil
  show ?case by simp
next
  case (Cons k ks)
  show ?case
    unfolding fold_simps Cons.IH map_of_sweep_step by auto
qed

lemma map_of_sweep:
  "map_of (sweep cs) key =
     (if key \<in> set (object_keys cs) \<and> is_background_key key \<and> \<not> exempt key
      then Some (Str ''#000000'') else map_of cs key)"
  by (simp add: sweep_def map_of_fold_sweep)

lemma colors_transformHighContrast:
  "colors (transformHighContrast t) =
     object_assign (sweep (json_copy_object (colors t))) overrides"
  by (simp add: transformHighContrast_def json_copy_def Let_def)

lemma map_of_high_contrast:
  "map_of (colors (transformHighContrast t)) key =
     (case map_of overrides key of
        Some v \<Rightarrow> Some v
      | None \<Rightarrow> map_of (sweep (json_copy_object (colors t))) key)"
  by (simp add: colors_transformHighContrast map_of_assign_wf wf_overrides map_add_def)

subsection \<open>Sanitation\<close>

lemma map_of_sanitize_step:
  "map_of (sanitize_step k cs) key =
     (if key = k \<and> falsy (js_get cs k) then None else map_of cs key)"
  by (simp add: sanitize_step_def map_of_js_delete)

lemma map_of_fold_sanitize:
  "map_of (fold sanitize_step ks cs) key =
     (case map_of cs key of
        None \<Rightarrow> None
      | Some v \<Rightarrow> if key \<in> set ks \<and> falsy v then None else Some v)"
proof (induction ks arbitrary: cs)
  case Nil
  show ?case by (simp split: option.splits)
next
  case (Cons k ks)
  show ?case
    unfolding fold_simps Cons.IH map_of_sanitize_step
    by (auto simp: js_get_def split: option.splits)
qed

lemma map_of_sanitize:
  "map_of (sanitize cs) key =
     (case map_of cs key of
        None \<Rightarrow> None
      | Some v \<Rightarrow> if falsy v then None else Some v)"
proof (cases "map_of cs key")
  case None
  then show ?thesis by (simp add: sanitize_def map_of_fold_sanitize)
next
  case (Some v)
  then have "key \<in> set (object_keys cs)" by (simp add: in_keys_iff)
  with Some show ?thesis by (simp add: sanitize_def map_of_fold_sanitize)
qed

lemma sanitize_truthy: "map_of (sanitize cs) key = Some v \<Longrightarrow> \<not> falsy v"
  by (auto simp: map_of_sanitize split: option.splits if_splits)

lemma sanitize_defined: "map_of (sanitize cs) key = Some v \<Longrightarrow> v \<noteq> Undefined"
  using sanitize_truthy by fastforce

lemma v_base_generate:
  "v_base (generate desat loaded) = loaded\<lparr>colors := sanitize (colors loaded)\<rparr>"
  by (simp add: generate_def Let_def)

lemma v_hc_generate:
  "v_hc (generate desat loaded) = transformHighContrast (v_base (generate desat loaded))"
  by (simp add: generate_def Let_def)

lemma v_soft_generate:
  "v_soft (generate desat loaded) = transformSoft desat (v_base (generate desat loaded))"
  by (simp add: generate_def Let_def)

lemma base_defined:
  "map_of (colors (v_base (generate desat loaded))) key = Some v \<Longrightarrow> v \<noteq> Undefined"
  by (simp add: v_base_generate sanitize_defined)

subsection \<open>The soft colours\<close>

lemma map_of_soft_step:
  "map_of (soft_color_step desat bright k cs) key =
     (if key = k \<and> includes_val bright (js_get cs k) then Some (Str (desat (js_get cs k)))
      else map_of cs key)"
  by (simp add: soft_color_step_def map_of_js_set)

lemma js_get_soft_step_other:
  "key \<noteq> k \<Longrightarrow> js_get (soft_color_step desat bright k cs) key = js_get cs key"
  by (simp add: js_get_def map_of_soft_step)

lemma fold_soft_not_bright:
  "\<not> includes_val bright (js_get cs key) \<Longrightarrow>
   map_of (fold (soft_color_step desat bright) ks cs) key = map_of cs key"
proof (induction ks arbitrary: cs)
  case Nil
  show ?case by simp
next
  case (Cons k ks)
  have same: "map_of (soft_color_step desat bright k cs) key = map_of cs key"
    using Cons.prems by (auto simp: map_of_soft_step)
  then have "js_get (soft_color_step desat bright k cs) key = js_get cs key"
    by (simp add: js_get_def)
  with Cons.prems have "\<not> includes_val bright (js_get (soft_color_step desat bright k cs) key)"
    by simp
  from Cons.IH [OF this] same show ?case by simp
qed

lemma fold_soft_not_visited:
  "key \<notin> set ks \<Longrightarrow>
   map_of (fold (soft_color_step desat bright) ks cs) key = map_of cs key"
  by (induction ks arbitrary: cs) (auto simp: map_of_soft_step)

lemma fold_soft_bright:
  "distinct ks \<Longrightarrow> key \<in> set ks \<Longrightarrow> includes_val bright (js_get cs key) \<Longrightarrow>
   map_of (fold (soft_color_step desat bright) ks cs) key = Some (Str (desat (js_get cs key)))"
proof (induction ks arbitrary: cs)
  case Nil
  then show ?case by simp
next
  case (Cons k ks)
  show ?case
  proof (cases "key = k")
    case True
    with Cons.prems have "key \<notin> set ks" by simp
    then have "map_of (fold (soft_color_step desat bright) ks (soft_color_step desat bright k cs)) key
        = map_of (soft_color_step desat bright k cs) key"
      by (rule fold_soft_not_visited)
    with True Cons.prems show ?thesis by (simp add: map_of_soft_step)
  next
    case False
    with Cons.prems have d: "distinct ks" and m: "key \<in> set ks" by simp_all
    from False have g: "js_get (soft_color_step desat bright k cs) key = js_get cs key"
      by (rule js_get_soft_step_other)
    with Cons.prems have "includes_val bright (js_get (soft_color_step desat bright k cs) key)"
      by simp
    from Cons.IH [OF d m this] g show ?thesis by simp
  qed
qed

lemma brightColors_json_copy: "brightColors (json_copy t) = brightColors t"
  by (simp add: brightColors_def json_copy_def)

lemma colors_transformSoft:
  "colors (transformSoft desat t) =
     soft_colors desat (brightColors t) (json_copy_object (colors t))"
  by (simp add: transformSoft_def Let_def brightColors_json_copy) (simp add: json_copy_def)

lemma tokenColors_transformSoft:
  "tokenColors (transformSoft desat t) = map (soft_token desat (brightColors t)) (tokenColors t)"
  by (simp add: transformSoft_def Let_def brightColors_json_copy) (simp add: json_copy_def)

lemma soft_keeps:
  assumes "map_of (colors t) key = Some v" and "v \<noteq> Undefined"
    and "\<not> includes_val (brightColors t) v"
  shows "map_of (colors (transformSoft desat t)) key = Some v"
proof -
  have c: "map_of (json_copy_object (colors t)) key = Some v"
    using assms(1,2) by (rule map_of_json_copy_object_Some)
  then have "js_get (json_copy_object (colors t)) key = v" by (simp add: js_get_def)
  with assms(3) have "\<not> includes_val (brightColors t) (js_get (json_copy_object (colors t)) key)"
    by simp
  then show ?thesis
    unfolding colors_transformSoft soft_colors_def
    by (simp add: fold_soft_not_bright c)
qed

lemma soft_desaturates:
  assumes "wf_object (colors t)" and "map_of (colors t) key = Some (Str s)"
    and "s \<in> set (brightColors t)"
  shows "map_of (colors (transformSoft desat t)) key = Some (Str (desat (Str s)))"
proof -
  let ?cs = "json_copy_object (colors t)"
  have c: "map_of ?cs key = Some (Str s)"
    using assms(2) by (rule map_of_json_copy_object_Some) simp
  then have g: "js_get ?cs key = Str s" by (simp add: js_get_def)
  from c have k: "key \<in> set (object_keys ?cs)" by (simp add: in_keys_iff)
  have d: "distinct (object_keys ?cs)"
    using wf_json_copy_object [OF assms(1)] by (simp add: wf_object_def)
  have "includes_val (brightColors t) (js_get ?cs key)"
    using g assms(3) by simp
  from fold_soft_bright [OF d k this] g show ?thesis
    by (simp add: colors_transformSoft soft_colors_def)
qed

lemma soft_token_foreground:
  "foreground (settings v) = Str s \<Longrightarrow> s \<in> set bright \<Longrightarrow>
   foreground (settings (soft_token desat bright v)) = Str (desat (Str s))"
  by (simp add: soft_token_def)

subsection \<open>The store: what building a theme appends\<close>

lemma heap_lookup_fresh: "heap_lookup (h @ F) (length h + k) = heap_lookup F k"
  by (simp add: heap_lookup_def nth_append)

lemma heap_lookup_old: "a < length h \<Longrightarrow> heap_lookup (h @ F) a = Some (h ! a)"
  by (simp add: heap_lookup_def nth_append)

lemma length_token_cells: "length (token_cells m vs) = 3 * length vs"
  by (induction m vs rule: token_cells.induct) simp_all

lemma alloc_token_list_cells:
  "alloc_token_list h vs = (h @ token_cells (length h) vs, token_refs (length h) vs)"
proof (induction vs arbitrary: h)
  case Nil
  show ?case by simp
next
  case (Cons v vs)
  show ?case
    by (simp add: alloc_token_def alloc_def Cons.IH eval_nat_numeral)
qed

lemma alloc_theme_cells:
  "alloc_theme h t =
     (h @ theme_cells (length h) t (tokens_addr (length h) t), theme_addr (length h) t)"
  by (simp add: alloc_theme_def alloc_dracula_def alloc_def alloc_token_list_cells
      theme_cells_def dracula_cells_def tokens_addr_def theme_addr_def length_token_cells
      eval_nat_numeral)

lemma read_tokens_at:
  "length pre = m \<Longrightarrow>
   read_token_list (pre @ token_cells m vs @ post) (token_refs m vs) = Some vs"
proof (induction vs arbitrary: pre m)
  case Nil
  show ?case by simp
next
  case (Cons v vs)
  let ?pre = "pre @ [StrArr (scope v), SettingsObj (settings v), TokenObj (name v) m (m + 1)]"
  have "length ?pre = m + 3" using Cons.prems by simp
  from Cons.IH [OF this] Cons.prems show ?case
    by (simp add: read_token_def token_cell_def strings_cell_def settings_cell_def
        heap_lookup_def nth_append)
qed

lemma soft_tokens_at:
  "length pre = m \<Longrightarrow>
   soft_tokens_heap desat bright (token_refs m vs) (pre @ token_cells m vs @ post)
     = Some (pre @ token_cells m (map (soft_token desat bright) vs) @ post)"
proof (induction vs arbitrary: pre m)
  case Nil
  show ?case by simp
next
  case (Cons v vs)
  let ?pre = "pre @ [StrArr (scope v), SettingsObj (soft_settings desat bright (settings v)),
    TokenObj (name v) m (m + 1)]"
  have "length ?pre = m + 3" using Cons.prems by simp
  from Cons.IH [OF this] Cons.prems show ?case
    by (simp add: token_cell_def settings_cell_def heap_lookup_def nth_append
        list_update_append soft_token_def soft_settings_def)
qed


lemma length_dracula_cells: "length (dracula_cells n dv) = 5"
  by (simp add: dracula_cells_def)

lemma length_theme_cells: "length (theme_cells n t tk) = 8 + 3 * length (tokenColors t)"
  by (simp add: theme_cells_def length_dracula_cells length_token_cells)

lemma token_refs_map: "token_refs m (map f vs) = token_refs m vs"
  by (induction vs arbitrary: m) simp_all

lemma theme_cell_at:
  "length h = n \<Longrightarrow>
   theme_cell (h @ theme_cells n t tk @ post) (theme_addr n t) = Some (n + 4, n + 5, tk)"
  by (simp add: theme_cell_def heap_lookup_def theme_cells_def theme_addr_def nth_append
      length_dracula_cells length_token_cells)

lemma read_dracula_at:
  "length h = n \<Longrightarrow>
   read_dracula (h @ theme_cells n t tk @ post) (n + 4) = Some (dracula t)"
  by (simp add: read_dracula_def strings_cell_def heap_lookup_def theme_cells_def
      dracula_cells_def nth_append)

lemma colors_cell_at:
  "length h = n \<Longrightarrow>
   colors_cell (h @ theme_cells n t tk @ post) (n + 5) = Some (colors t)"
  by (simp add: colors_cell_def heap_lookup_def theme_cells_def dracula_cells_def nth_append)

lemma colors_update_at:
  "length h = n \<Longrightarrow>
   (h @ theme_cells n t tk @ post)[n + 5 := ColorsObj cs]
     = h @ theme_cells n (t\<lparr>colors := cs\<rparr>) tk @ post"
  by (simp add: theme_cells_def dracula_cells_def list_update_append)

lemma tokens_cell_at:
  "length h = n \<Longrightarrow>
   tokens_cell (h @ theme_cells n t tk @ post) (tokens_addr n t)
     = Some (token_refs (n + 6) (tokenColors t))"
  by (simp add: tokens_cell_def heap_lookup_def theme_cells_def tokens_addr_def nth_append
      length_dracula_cells length_token_cells)

lemma theme_update_at:
  "length h = n \<Longrightarrow>
   (h @ theme_cells n t tk @ post)[theme_addr n t := ThemeObj (n + 4) (n + 5) tk']
     = h @ theme_cells n t tk' @ post"
  by (simp add: theme_cells_def theme_addr_def list_update_append length_dracula_cells
      length_token_cells)

lemma theme_cells_split:
  "h @ theme_cells n t tk @ post =
     (h @ dracula_cells n (dracula t) @ [ColorsObj (colors t)]) @ token_cells (n + 6) (tokenColors t)
       @ (TokenArr (token_refs (n + 6) (tokenColors t)) # ThemeObj (n + 4) (n + 5) tk # post)"
  by (simp add: theme_cells_def)

lemma read_tokens_theme:
  assumes "length h = n"
  shows "read_token_list (h @ theme_cells n t tk @ post) (token_refs (n + 6) (tokenColors t))
     = Some (tokenColors t)"
proof -
  have "length (h @ dracula_cells n (dracula t) @ [ColorsObj (colors t)]) = n + 6"
    using assms by (simp add: length_dracula_cells)
  from read_tokens_at [OF this] show ?thesis
    unfolding theme_cells_split .
qed

lemma soft_tokens_theme:
  assumes "length h = n"
  shows "soft_tokens_heap desat bright (token_refs (n + 6) (tokenColors t))
       (h @ theme_cells n t tk @ post)
     = Some (h @ theme_cells n (t\<lparr>tokenColors := map (soft_token desat bright) (tokenColors t)\<rparr>) tk
         @ post)"
proof -
  have "length (h @ dracula_cells n (dracula t) @ [ColorsObj (colors t)]) = n + 6"
    using assms by (simp add: length_dracula_cells)
  from soft_tokens_at [OF this] show ?thesis
    unfolding theme_cells_split by (simp add: token_refs_map)
qed

lemma read_theme_at:
  assumes "length h = n"
    and "tokens_cell (h @ theme_cells n t tk @ post) tk = Some (token_refs (n + 6) (tokenColors t))"
  shows "read_theme (h @ theme_cells n t tk @ post) (theme_addr n t) = Some t"
  unfolding read_theme_def
  by (simp add: theme_cell_at [OF assms(1)] read_dracula_at [OF assms(1)]
      colors_cell_at [OF assms(1)] assms(2) read_tokens_theme [OF assms(1)])

lemma read_theme_built:
  "length h = n \<Longrightarrow>
   read_theme (h @ theme_cells n t (tokens_addr n t)) (theme_addr n t) = Some t"
  using read_theme_at [of h n t "tokens_addr n t" "[]"] tokens_cell_at [of h n t "tokens_addr n t" "[]"]
  by simp

subsection \<open>The store: the result of the transforms\<close>

lemma theme_addr_colors [simp]: "theme_addr n (t\<lparr>colors := cs\<rparr>) = theme_addr n t"
  by (simp add: theme_addr_def)

lemma tokens_addr_colors [simp]: "tokens_addr n (t\<lparr>colors := cs\<rparr>) = tokens_addr n t"
  by (simp add: tokens_addr_def)

lemma length_tokens_transformSoft:
  "length (tokenColors (transformSoft desat t)) = length (tokenColors t)"
  by (simp add: transformSoft_def Let_def json_copy_def)

lemma length_tokens_transformHighContrast:
  "length (tokenColors (transformHighContrast t)) = length (tokenColors t)"
  by (simp add: transformHighContrast_def Let_def json_copy_def)

lemma colors_cell_update:
  "colors_cell h c = Some cs \<Longrightarrow> colors_cell (h[c := ColorsObj cs']) c = Some cs'"
  by (auto simp: colors_cell_def heap_lookup_def split: if_splits)

lemma object_loop_heap_fold:
  "colors_cell h c = Some cs \<Longrightarrow>
   object_loop_heap step c xs h = Some (h[c := ColorsObj (fold step xs cs)])"
proof (induction xs arbitrary: h cs)
  case Nil
  then have "h ! c = ColorsObj cs"
    by (auto simp: colors_cell_def heap_lookup_def split: if_splits option.splits cell.splits)
  then have "h[c := ColorsObj cs] = h"
    by (metis list_update_id)
  then show ?case by simp
next
  case (Cons x xs)
  have "colors_cell (h[c := ColorsObj (step x cs)]) c = Some (step x cs)"
    using Cons.prems by (rule colors_cell_update)
  from Cons.IH [OF this] Cons.prems show ?case by simp
qed

lemma transformSoft_heap_result:
  assumes "read_theme h a = Some t" and "length h = n"
  shows "transformSoft_heap desat h a =
     Some (h @ theme_cells n (transformSoft desat t) (theme_addr n (transformSoft desat t) + 1)
             @ [TokenArr (token_refs (n + 6) (tokenColors (transformSoft desat t)))],
           theme_addr n (transformSoft desat t))"
proof -
  define T where "T = transformSoft desat t"
  define t0 where "t0 = json_copy t"
  define bright where "bright = ansi (dracula t0) @ brightOther (dracula t0)"
  define t1 where "t1 = t0\<lparr>colors := soft_colors desat bright (colors t0)\<rparr>"
  define r where "r = theme_addr n t0"
  define tk where "tk = tokens_addr n t0"
  define rs where "rs = token_refs (n + 6) (tokenColors t0)"
  define H1 where "H1 = h @ theme_cells n t0 tk"
  define H2 where "H2 = h @ theme_cells n t1 tk"
  define H3 where "H3 = h @ theme_cells n T tk"
  have T: "T = t1\<lparr>tokenColors := map (soft_token desat bright) (tokenColors t1)\<rparr>"
    by (simp add: T_def transformSoft_def Let_def t1_def bright_def brightColors_def t0_def)
  have lenT: "length (tokenColors T) = length (tokenColors t0)"
    by (simp add: T t1_def)
  have rT: "theme_addr n T = r"
    by (simp add: theme_addr_def r_def lenT)
  have rsT: "token_refs (n + 6) (tokenColors T) = rs"
    by (simp add: T t1_def rs_def token_refs_map)
  have a1: "alloc_theme h t0 = (H1, r)"
    using assms(2) by (simp add: alloc_theme_cells H1_def r_def tk_def)
  have a2: "theme_cell H1 r = Some (n + 4, n + 5, tk)"
    using theme_cell_at [OF assms(2), of t0 tk "[]"] by (simp add: H1_def r_def)
  have a3: "read_dracula H1 (n + 4) = Some (dracula t0)"
    using read_dracula_at [OF assms(2), of t0 tk "[]"] by (simp add: H1_def)
  have a4: "colors_cell H1 (n + 5) = Some (colors t0)"
    using colors_cell_at [OF assms(2), of t0 tk "[]"] by (simp add: H1_def)
  have "H1[n + 5 := ColorsObj (soft_colors desat bright (colors t0))] = H2"
    using colors_update_at [OF assms(2), of t0 tk "[]"] by (simp add: H1_def H2_def t1_def)
  with object_loop_heap_fold [OF a4, of "soft_color_step desat bright" "object_keys (colors t0)"]
  have a5: "object_loop_heap (soft_color_step desat bright) (n + 5) (object_keys (colors t0)) H1
      = Some H2"
    by (simp add: soft_colors_def)
  have a6: "theme_cell H2 r = Some (n + 4, n + 5, tk)"
    using theme_cell_at [OF assms(2), of t1 tk "[]"] by (simp add: H2_def r_def t1_def)
  have a7: "tokens_cell H2 tk = Some rs"
    using tokens_cell_at [OF assms(2), of t1 tk "[]"] by (simp add: H2_def tk_def rs_def t1_def)
  have a8: "soft_tokens_heap desat bright rs H2 = Some H3"
    using soft_tokens_theme [OF assms(2), of desat bright t1 tk "[]"]
    by (simp add: H2_def H3_def T rs_def t1_def)
  have len3: "length H3 = r + 1"
    using assms(2) by (simp add: H3_def length_theme_cells lenT r_def theme_addr_def)
  have a9: "alloc H3 (TokenArr rs) = (H3 @ [TokenArr rs], Suc r)"
    by (simp add: alloc_def len3)
  have a10: "theme_cell (H3 @ [TokenArr rs]) r = Some (n + 4, n + 5, tk)"
    using theme_cell_at [OF assms(2), of T tk "[TokenArr rs]"] by (simp add: H3_def rT)
  have a11: "(H3 @ [TokenArr rs])[r := ThemeObj (n + 4) (n + 5) (Suc r)]
      = h @ theme_cells n T (Suc r) @ [TokenArr rs]"
    using theme_update_at [OF assms(2), of T tk "[TokenArr rs]" "Suc r"] by (simp add: H3_def rT)
  show ?thesis
    unfolding transformSoft_heap_def T_def [symmetric] rT rsT
    by (simp add: assms(1) t0_def [symmetric] a1 a2 a3 bright_def [symmetric] a4 a5 a6 a7 a8 a9
        a10 a11)
qed

lemma transformHighContrast_heap_result:
  assumes "read_theme h a = Some t" and "length h = n"
  shows "transformHighContrast_heap h a =
     Some (h @ theme_cells n (transformHighContrast t) (tokens_addr n (transformHighContrast t)),
           theme_addr n (transformHighContrast t))"
proof -
  define T where "T = transformHighContrast t"
  define t0 where "t0 = json_copy t"
  define t1 where "t1 = t0\<lparr>colors := sweep (colors t0)\<rparr>"
  define r where "r = theme_addr n t0"
  define tk where "tk = tokens_addr n t0"
  define H1 where "H1 = h @ theme_cells n t0 tk"
  define H2 where "H2 = h @ theme_cells n t1 tk"
  have T: "T = t1\<lparr>colors := object_assign (colors t1) overrides\<rparr>"
    by (simp add: T_def transformHighContrast_def Let_def t1_def t0_def)
  have rT: "theme_addr n T = r" and tkT: "tokens_addr n T = tk"
    by (simp_all add: T t1_def r_def tk_def)
  have a1: "alloc_theme h t0 = (H1, r)"
    using assms(2) by (simp add: alloc_theme_cells H1_def r_def tk_def)
  have a2: "theme_cell H1 r = Some (n + 4, n + 5, tk)"
    using theme_cell_at [OF assms(2), of t0 tk "[]"] by (simp add: H1_def r_def)
  have a4: "colors_cell H1 (n + 5) = Some (colors t0)"
    using colors_cell_at [OF assms(2), of t0 tk "[]"] by (simp add: H1_def)
  have "H1[n + 5 := ColorsObj (sweep (colors t0))] = H2"
    using colors_update_at [OF assms(2), of t0 tk "[]"] by (simp add: H1_def H2_def t1_def)
  with object_loop_heap_fold [OF a4, of sweep_step "object_keys (colors t0)"]
  have a5: "object_loop_heap sweep_step (n + 5) (object_keys (colors t0)) H1 = Some H2"
    by (simp add: sweep_def)
  have a6: "theme_cell H2 r = Some (n + 4, n + 5, tk)"
    using theme_cell_at [OF assms(2), of t1 tk "[]"] by (simp add: H2_def r_def t1_def)
  have a7: "colors_cell H2 (n + 5) = Some (sweep (colors t0))"
    using colors_cell_at [OF assms(2), of t1 tk "[]"] by (simp add: H2_def t1_def)
  have "H2[n + 5 := ColorsObj (object_assign (sweep (colors t0)) overrides)]
      = h @ theme_cells n T tk"
    using colors_update_at [OF assms(2), of t1 tk "[]"] by (simp add: H2_def T t1_def)
  with object_loop_heap_fold [OF a7, of "\<lambda>(key, v) cs. js_set cs key v" overrides]
  have a8: "object_loop_heap (\<lambda>(key, v) cs. js_set cs key v) (n + 5) overrides H2
      = Some (h @ theme_cells n T tk)"
    by (simp add: object_assign_def)
  show ?thesis
    unfolding transformHighContrast_heap_def T_def [symmetric] rT tkT
    by (simp add: assms(1) t0_def [symmetric] a1 a2 a4 a5 a6 a8)
qed

subsection \<open>Reading is not changed by new cells\<close>

lemma heap_lookup_extend: "heap_lookup h a = Some c \<Longrightarrow> heap_lookup (h @ F) a = Some c"
  by (auto simp: heap_lookup_def nth_append split: if_splits)

lemma strings_cell_extend: "strings_cell h a = Some xs \<Longrightarrow> strings_cell (h @ F) a = Some xs"
  by (auto simp: strings_cell_def heap_lookup_extend split: option.splits cell.splits)

lemma colors_cell_extend: "colors_cell h a = Some cs \<Longrightarrow> colors_cell (h @ F) a = Some cs"
  by (auto simp: colors_cell_def heap_lookup_extend split: option.splits cell.splits)

lemma settings_cell_extend: "settings_cell h a = Some s \<Longrightarrow> settings_cell (h @ F) a = Some s"
  by (auto simp: settings_cell_def heap_lookup_extend split: option.splits cell.splits)

lemma token_cell_extend: "token_cell h a = Some p \<Longrightarrow> token_cell (h @ F) a = Some p"
  by (auto simp: token_cell_def heap_lookup_extend split: option.splits cell.splits)

lemma tokens_cell_extend: "tokens_cell h a = Some rs \<Longrightarrow> tokens_cell (h @ F) a = Some rs"
  by (auto simp: tokens_cell_def heap_lookup_extend split: option.splits cell.splits)

lemma theme_cell_extend: "theme_cell h a = Some p \<Longrightarrow> theme_cell (h @ F) a = Some p"
  by (auto simp: theme_cell_def heap_lookup_extend split: option.splits cell.splits)

lemma read_dracula_extend: "read_dracula h a = Some dv \<Longrightarrow> read_dracula (h @ F) a = Some dv"
  by (auto simp: read_dracula_def heap_lookup_extend strings_cell_extend bind_eq_Some_conv
      split: option.splits cell.splits)

lemma read_token_extend: "read_token h a = Some v \<Longrightarrow> read_token (h @ F) a = Some v"
  by (auto simp: read_token_def token_cell_extend strings_cell_extend settings_cell_extend
      bind_eq_Some_conv)

lemma read_token_list_extend:
  "read_token_list h rs = Some vs \<Longrightarrow> read_token_list (h @ F) rs = Some vs"
  by (induction rs arbitrary: vs) (auto simp: read_token_extend bind_eq_Some_conv)

lemma read_theme_extend: "read_theme h a = Some t \<Longrightarrow> read_theme (h @ F) a = Some t"
  by (auto simp: read_theme_def theme_cell_extend read_dracula_extend colors_cell_extend
      tokens_cell_extend read_token_list_extend bind_eq_Some_conv)

lemma heap_lookup_last: "heap_lookup (X @ [c]) (length X) = Some c"
  by (simp add: heap_lookup_def)

subsection \<open>The new cells refer to new cells\<close>

lemma token_refs_fresh: "x \<in> set (token_refs m vs) \<Longrightarrow> m \<le> x"
proof (induction vs arbitrary: m)
  case Nil
  then show ?case by simp
next
  case (Cons v vs)
  then show ?case by (auto dest: Cons.IH)
qed

lemma token_cells_fresh:
  "c \<in> set (token_cells m vs) \<Longrightarrow> x \<in> set (refs_of c) \<Longrightarrow> m \<le> x"
proof (induction vs arbitrary: m)
  case Nil
  then show ?case by simp
next
  case (Cons v vs)
  then show ?case by (auto dest: Cons.IH)
qed

lemma theme_cells_fresh:
  assumes "c \<in> set (theme_cells n t tk)" and "x \<in> set (refs_of c)" and "n \<le> tk"
  shows "n \<le> x"
  using assms
  by (fastforce simp: theme_cells_def dracula_cells_def dest: token_cells_fresh token_refs_fresh)

lemma reachable_fresh:
  assumes "reachable (h @ F) r x" and "length h \<le> r"
    and "\<And>c y. c \<in> set F \<Longrightarrow> y \<in> set (refs_of c) \<Longrightarrow> length h \<le> y"
  shows "length h \<le> x"
  using assms(1)
proof (induction rule: reachable.induct)
  case reach_self
  show ?case by (rule assms(2))
next
  case (reach_step b c x)
  from reach_step.hyps(2) reach_step.IH have "c \<in> set F"
    by (auto simp: heap_lookup_def nth_append split: if_splits)
  with reach_step.hyps(3) show ?case by (rule assms(3) [rotated])
qed


subsection \<open>What the input reaches is old\<close>

lemma read_token_list_member:
  "read_token_list h rs = Some vs \<Longrightarrow> r \<in> set rs \<Longrightarrow> \<exists>v. read_token h r = Some v"
  by (induction rs arbitrary: vs) (auto simp: bind_eq_Some_conv)

lemma heap_lookup_prefix: "b < length h \<Longrightarrow> heap_lookup (h @ F) b = heap_lookup h b"
  by (simp add: heap_lookup_def nth_append)

lemma heap_lookup_less: "heap_lookup h y = Some c \<Longrightarrow> y < length h"
  by (simp add: heap_lookup_def split: if_splits)

lemma strings_cell_iff: "strings_cell h y = Some xs \<longleftrightarrow> heap_lookup h y = Some (StrArr xs)"
  by (simp add: strings_cell_def split: option.splits cell.splits)

lemma colors_cell_iff: "colors_cell h y = Some cs \<longleftrightarrow> heap_lookup h y = Some (ColorsObj cs)"
  by (simp add: colors_cell_def split: option.splits cell.splits)

lemma settings_cell_iff: "settings_cell h y = Some s \<longleftrightarrow> heap_lookup h y = Some (SettingsObj s)"
  by (simp add: settings_cell_def split: option.splits cell.splits)

lemma token_cell_iff:
  "token_cell h y = Some (n, sc, st) \<longleftrightarrow> heap_lookup h y = Some (TokenObj n sc st)"
  by (simp add: token_cell_def split: option.splits cell.splits)

lemma tokens_cell_iff: "tokens_cell h y = Some rs \<longleftrightarrow> heap_lookup h y = Some (TokenArr rs)"
  by (simp add: tokens_cell_def split: option.splits cell.splits)

lemma theme_cell_iff:
  "theme_cell h y = Some (d, c, tk) \<longleftrightarrow> heap_lookup h y = Some (ThemeObj d c tk)"
  by (simp add: theme_cell_def split: option.splits cell.splits)

lemma read_dracula_cell:
  "read_dracula h y = Some dv \<Longrightarrow>
   \<exists>b an br ot. heap_lookup h y = Some (DraculaObj b an br ot) \<and>
     heap_lookup h b = Some (StrArr (base dv)) \<and> heap_lookup h an = Some (StrArr (ansi dv)) \<and>
     heap_lookup h br = Some (StrArr (brightOther dv)) \<and>
     heap_lookup h ot = Some (StrArr (other dv))"
  by (auto simp: read_dracula_def strings_cell_iff bind_eq_Some_conv
      split: option.splits cell.splits)

lemma read_token_cell:
  "read_token h y = Some v \<Longrightarrow>
   \<exists>sc st. heap_lookup h y = Some (TokenObj (name v) sc st) \<and>
     heap_lookup h sc = Some (StrArr (scope v)) \<and>
     heap_lookup h st = Some (SettingsObj (settings v))"
  by (auto simp: read_token_def token_cell_iff strings_cell_iff settings_cell_iff
      bind_eq_Some_conv)

lemma read_theme_cell:
  "read_theme h y = Some u \<Longrightarrow>
   \<exists>d c tk rs. heap_lookup h y = Some (ThemeObj d c tk) \<and>
     read_dracula h d = Some (dracula u) \<and> heap_lookup h c = Some (ColorsObj (colors u)) \<and>
     heap_lookup h tk = Some (TokenArr rs) \<and> read_token_list h rs = Some (tokenColors u)"
  by (auto simp: read_theme_def theme_cell_iff colors_cell_iff tokens_cell_iff bind_eq_Some_conv)

text \<open>
  The cells that reading a theme visits: the theme, the object of its palette groups,
  the array of its token colours, a token colour, and the cells without references.
\<close>

lemma reachable_old:
  assumes rd: "read_theme h a = Some t" and re: "reachable (h @ F) a x"
  shows "x < length h"
proof -
  define ok where "ok y \<longleftrightarrow>
      (\<exists>u. read_theme h y = Some u) \<or> (\<exists>dv. read_dracula h y = Some dv) \<or>
      (\<exists>rs vs. heap_lookup h y = Some (TokenArr rs) \<and> read_token_list h rs = Some vs) \<or>
      (\<exists>v. read_token h y = Some v) \<or>
      (\<exists>xs. heap_lookup h y = Some (StrArr xs)) \<or>
      (\<exists>cs. heap_lookup h y = Some (ColorsObj cs)) \<or>
      (\<exists>s. heap_lookup h y = Some (SettingsObj s))" for y
  have lt: "y < length h" if "ok y" for y
    using that unfolding ok_def
    by (auto dest!: read_theme_cell read_dracula_cell read_token_cell dest: heap_lookup_less)
  have step: "ok y" if b: "ok b" and "heap_lookup (h @ F) b = Some c" and y: "y \<in> set (refs_of c)"
    for b c y
  proof -
    from b have "b < length h" by (rule lt)
    with that(2) have c: "heap_lookup h b = Some c"
      by (simp add: heap_lookup_prefix)
    from b consider
        (theme) u where "read_theme h b = Some u"
      | (dracula) dv where "read_dracula h b = Some dv"
      | (tokens) rs vs where "heap_lookup h b = Some (TokenArr rs)" "read_token_list h rs = Some vs"
      | (token) v where "read_token h b = Some v"
      | (leaf) "refs_of c = []"
      using c unfolding ok_def by auto
    then show ?thesis
    proof cases
      case theme
      from read_theme_cell [OF this] c y show ?thesis
        unfolding ok_def by auto
    next
      case dracula
      from read_dracula_cell [OF this] c y show ?thesis
        unfolding ok_def by auto
    next
      case tokens
      with c y have "y \<in> set rs" by auto
      with tokens(2) show ?thesis
        unfolding ok_def using read_token_list_member by blast
    next
      case token
      from read_token_cell [OF this] c y show ?thesis
        unfolding ok_def by auto
    next
      case leaf
      with y show ?thesis by simp
    qed
  qed
  from re have "ok x"
  proof (induction rule: reachable.induct)
    case reach_self
    from rd show ?case unfolding ok_def by blast
  next
    case (reach_step b c x)
    then show ?case using step by blast
  qed
  then show ?thesis by (rule lt)
qed

subsection \<open>The two transforms on the store\<close>

lemma soft_heap_frame:
  assumes "read_theme h a = Some t"
  shows "\<exists>h' r. transformSoft_heap desat h a = Some (h', r) \<and>
           take (length h) h' = h \<and> read_theme h' a = Some t \<and>
           (\<forall>x. reachable h' r x \<longrightarrow> length h \<le> x) \<and>
           (\<forall>x. \<not> (reachable h' a x \<and> reachable h' r x)) \<and>
           read_theme h' r = Some (transformSoft desat t)"
proof -
  define n where "n = length h"
  define T where "T = transformSoft desat t"
  define r where "r = theme_addr n T"
  define rs where "rs = token_refs (n + 6) (tokenColors T)"
  define F where "F = theme_cells n T (r + 1) @ [TokenArr rs]"
  have n: "length h = n" by (simp add: n_def)
  have res: "transformSoft_heap desat h a = Some (h @ F, r)"
    using transformSoft_heap_result [OF assms n, of desat]
    by (simp add: F_def r_def rs_def T_def)
  have pre: "take (length h) (h @ F) = h" by simp
  have old: "read_theme (h @ F) a = Some t"
    using assms by (rule read_theme_extend)
  have fresh: "length h \<le> y" if "c \<in> set F" and "y \<in> set (refs_of c)" for c y
  proof -
    from that(1) consider "c \<in> set (theme_cells n T (r + 1))" | "c = TokenArr rs"
      by (auto simp: F_def)
    then show ?thesis
    proof cases
      case 1
      moreover have "n \<le> r + 1" by (simp add: r_def theme_addr_def)
      ultimately show ?thesis using that(2) theme_cells_fresh n by blast
    next
      case 2
      with that(2) have "n + 6 \<le> y" by (auto simp: rs_def dest: token_refs_fresh)
      with n show ?thesis by simp
    qed
  qed
  have "length h \<le> r" by (simp add: r_def theme_addr_def n)
  then have reach: "\<forall>x. reachable (h @ F) r x \<longrightarrow> length h \<le> x"
    using reachable_fresh fresh by blast
  have len: "length (h @ theme_cells n T (r + 1)) = r + 1"
    by (simp add: n length_theme_cells r_def theme_addr_def)
  have "heap_lookup ((h @ theme_cells n T (r + 1)) @ [TokenArr rs]) (r + 1) = Some (TokenArr rs)"
    using heap_lookup_last [of "h @ theme_cells n T (r + 1)" "TokenArr rs"] unfolding len .
  then have "tokens_cell (h @ theme_cells n T (r + 1) @ [TokenArr rs]) (r + 1) = Some rs"
    by (simp add: tokens_cell_def)
  then have new: "read_theme (h @ F) r = Some T"
    unfolding F_def r_def rs_def by (rule read_theme_at [OF n])
  have apart: "\<forall>x. \<not> (reachable (h @ F) a x \<and> reachable (h @ F) r x)"
  proof (intro allI notI)
    fix x
    assume "reachable (h @ F) a x \<and> reachable (h @ F) r x"
    with reach reachable_old [OF assms] have "x < length h" and "length h \<le> x" by blast+
    then show False by simp
  qed
  from res pre old reach apart new show ?thesis
    unfolding T_def by blast
qed

lemma high_contrast_heap_frame:
  assumes "read_theme h a = Some t"
  shows "\<exists>h' r. transformHighContrast_heap h a = Some (h', r) \<and>
           take (length h) h' = h \<and> read_theme h' a = Some t \<and>
           (\<forall>x. reachable h' r x \<longrightarrow> length h \<le> x) \<and>
           (\<forall>x. \<not> (reachable h' a x \<and> reachable h' r x)) \<and>
           read_theme h' r = Some (transformHighContrast t)"
proof -
  define n where "n = length h"
  define T where "T = transformHighContrast t"
  define r where "r = theme_addr n T"
  define F where "F = theme_cells n T (tokens_addr n T)"
  have n: "length h = n" by (simp add: n_def)
  have res: "transformHighContrast_heap h a = Some (h @ F, r)"
    using transformHighContrast_heap_result [OF assms n]
    by (simp add: F_def r_def T_def)
  have pre: "take (length h) (h @ F) = h" by simp
  have old: "read_theme (h @ F) a = Some t"
    using assms by (rule read_theme_extend)
  have "n \<le> tokens_addr n T" by (simp add: tokens_addr_def)
  then have fresh: "length h \<le> y" if "c \<in> set F" and "y \<in> set (refs_of c)" for c y
    using that theme_cells_fresh n unfolding F_def by blast
  have "length h \<le> r" by (simp add: r_def theme_addr_def n)
  then have reach: "\<forall>x. reachable (h @ F) r x \<longrightarrow> length h \<le> x"
    using reachable_fresh fresh by blast
  have new: "read_theme (h @ F) r = Some T"
    unfolding F_def r_def by (rule read_theme_built [OF n])
  have apart: "\<forall>x. \<not> (reachable (h @ F) a x \<and> reachable (h @ F) r x)"
  proof (intro allI notI)
    fix x
    assume "reachable (h @ F) a x \<and> reachable (h @ F) r x"
    with reach reachable_old [OF assms] have "x < length h" and "length h \<le> x" by blast+
    then show False by simp
  qed
  from res pre old reach apart new show ?thesis
    unfolding T_def by blast
qed

subsection \<open>Colours that no hex string is\<close>







subsection \<open>The sample\<close>

lemma sample_base_colors:
  "colors sample_base =
     [(''editor.background'', Str ''#282A36''),
      (''button.background'', Str ''#6272A4''),
      (''statusBar.foreground'', Str ''#FF5555''),
      (''editorGutter.background'', Str ''#282A36''),
      (''scrollbarSlider.background'', Str ''#44475A80''),
      (''editor.findMatchBackground'', Str ''#FF555580''),
      (''editor.selectionBackground'', Str ''#44475A'')]"
  unfolding sample_base_def v_base_generate by code_simp

lemma sample_base_bright:
  "brightColors sample_base = [''#21222C'', ''#FF5555'', ''#6272A4'', ''#E9F284'']"
  unfolding sample_base_def v_base_generate by code_simp

lemma sample_base_tokens: "tokenColors sample_base = tokenColors sample_loaded"
  unfolding sample_base_def v_base_generate by simp

lemma sample_base_dracula: "dracula sample_base = dracula sample_loaded"
  unfolding sample_base_def v_base_generate by simp

section \<open>Properties of the generator\<close>

text \<open>
  C1. The override table is authoritative: a key of the table \<^verbatim>\<open>overrides\<close> has the
  table's value in the colours of the high-contrast theme, for every input theme, so
  whatever the input held for the key and whatever the sweep made of it.
\<close>

theorem overrides_authoritative:
  "map_of overrides key = Some v \<Longrightarrow>
   map_of (colors (transformHighContrast t)) key = Some v"
  by (simp add: map_of_high_contrast)

text \<open>
  On the sample the scrollbar slider is \<^verbatim>\<open>#44475A80\<close>, the sweep makes it black, and the
  table's \<^verbatim>\<open>#FFFFFF60\<close> is what the result holds.
\<close>

theorem overrides_authoritative_witness:
  "map_of overrides ''scrollbarSlider.background'' = Some (Str ''#FFFFFF60'') \<and>
   map_of (colors sample_base) ''scrollbarSlider.background'' = Some (Str ''#44475A80'') \<and>
   map_of (sweep (json_copy_object (colors sample_base))) ''scrollbarSlider.background''
     = Some (Str ''#000000'') \<and>
   map_of (colors (transformHighContrast sample_base)) ''scrollbarSlider.background''
     = Some (Str ''#FFFFFF60'')"
proof -
  have tab: "map_of overrides ''scrollbarSlider.background'' = Some (Str ''#FFFFFF60'')"
    unfolding map_of_overrides by code_simp
  have inp: "map_of (colors sample_base) ''scrollbarSlider.background'' = Some (Str ''#44475A80'')"
    unfolding sample_base_colors by code_simp
  have "''scrollbarSlider.background'' \<in> set (object_keys (json_copy_object (colors sample_base)))"
    unfolding sample_base_colors by code_simp
  moreover have "is_background_key ''scrollbarSlider.background''" by code_simp
  moreover have "\<not> exempt ''scrollbarSlider.background''" by code_simp
  ultimately have swept:
    "map_of (sweep (json_copy_object (colors sample_base))) ''scrollbarSlider.background''
       = Some (Str ''#000000'')"
    by (simp only: map_of_sweep simp_thms if_True)
  from tab inp swept overrides_authoritative [OF tab, of sample_base]
  show ?thesis by (intro conjI)
qed

text \<open>
  C2. The sweep of phase 1 runs over the keys of the copy \<^verbatim>\<open>hc.colors\<close>. A key of the
  input whose value is not \<^verbatim>\<open>undefined\<close> is a key of the copy (the copy leaves out a
  property that is \<^verbatim>\<open>undefined\<close>; the loader makes none and the sanitized base has
  none). If such a key is in \<^verbatim>\<open>bgKeys\<close> or ends with \<^verbatim>\<open>background\<close> or \<^verbatim>\<open>Background\<close>
  and contains none of the exemption substrings, its value after the sweep is
  \<^verbatim>\<open>#000000\<close>, and so is its value in the result when the override table does not have
  the key. For the sanitized base of the pipeline this holds for every key.
\<close>

theorem sweep_forces_black:
  assumes "is_background_key key" and "\<not> exempt key"
  shows "(map_of (colors t) key = Some v \<and> v \<noteq> Undefined \<longrightarrow>
            map_of (sweep (colors (json_copy t))) key = Some (Str ''#000000'') \<and>
            (map_of overrides key = None \<longrightarrow>
               map_of (colors (transformHighContrast t)) key = Some (Str ''#000000''))) \<and>
         (map_of (colors (v_base (generate desat loaded))) key = Some v \<longrightarrow>
            map_of (sweep (colors (json_copy (v_base (generate desat loaded))))) key
              = Some (Str ''#000000'') \<and>
            (map_of overrides key = None \<longrightarrow>
               map_of (colors (v_hc (generate desat loaded))) key = Some (Str ''#000000'')))"
proof -
  have main: "map_of (sweep (colors (json_copy u))) key = Some (Str ''#000000'') \<and>
      (map_of overrides key = None \<longrightarrow>
         map_of (colors (transformHighContrast u)) key = Some (Str ''#000000''))"
    if "map_of (colors u) key = Some w" and "w \<noteq> Undefined" for u w
  proof -
    have "map_of (json_copy_object (colors u)) key = Some w"
      using that by (rule map_of_json_copy_object_Some)
    then have "key \<in> set (object_keys (json_copy_object (colors u)))"
      by (simp add: in_keys_iff)
    with assms have "map_of (sweep (json_copy_object (colors u))) key = Some (Str ''#000000'')"
      by (simp only: map_of_sweep simp_thms if_True)
    then show ?thesis
      by (simp add: map_of_high_contrast json_copy_def)
  qed
  show ?thesis
    using main [of t v] main [of "v_base (generate desat loaded)" v] base_defined [of desat loaded key v]
    by (simp only: v_hc_generate) blast
qed

text \<open>
  On the sample, \<^verbatim>\<open>editorGutter.background\<close> is in \<^verbatim>\<open>bgKeys\<close>, is not exempt and is not
  a key of the table.
\<close>

theorem sweep_forces_black_witness:
  "is_background_key ''editorGutter.background'' \<and>
   \<not> exempt ''editorGutter.background'' \<and>
   map_of (colors sample_base) ''editorGutter.background'' = Some (Str ''#282A36'') \<and>
   map_of overrides ''editorGutter.background'' = None \<and>
   map_of (sweep (colors (json_copy sample_base))) ''editorGutter.background''
     = Some (Str ''#000000'') \<and>
   map_of (colors (transformHighContrast sample_base)) ''editorGutter.background''
     = Some (Str ''#000000'') \<and>
   map_of (colors (v_hc (generate sample_desaturate sample_loaded))) ''editorGutter.background''
     = Some (Str ''#000000'')"
proof -
  have bg: "is_background_key ''editorGutter.background''" by code_simp
  have ex: "\<not> exempt ''editorGutter.background''" by code_simp
  have inp: "map_of (colors sample_base) ''editorGutter.background'' = Some (Str ''#282A36'')"
    unfolding sample_base_colors by code_simp
  have inp': "map_of (colors (v_base (generate sample_desaturate sample_loaded)))
      ''editorGutter.background'' = Some (Str ''#282A36'')"
    using inp by (simp only: sample_base_def)
  have tab: "map_of overrides ''editorGutter.background'' = None"
    unfolding map_of_overrides by code_simp
  have df: "Str ''#282A36'' \<noteq> Undefined" by simp
  from sweep_forces_black [OF bg ex, of sample_base "Str ''#282A36''" sample_desaturate sample_loaded]
    bg ex inp inp' tab df
  show ?thesis by blast
qed

text \<open>
  C3. The soft transform replaces a colour of the mapping that is a string of
  \<^verbatim>\<open>brightColors\<close> (the \<^verbatim>\<open>ansi\<close> group followed by the \<^verbatim>\<open>brightOther\<close> group; membership
  is equality of strings) by what \<^verbatim>\<open>tinycolor(v).desaturate(20).toHexString()\<close>
  returns for it, and likewise the foreground of every token colour, rule by rule. The
  colour mapping is an object, so its keys are distinct.
\<close>

theorem soft_desaturates_bright:
  assumes "wf_object (colors t)"
  shows "(map_of (colors t) key = Some (Str s) \<and> s \<in> set (ansi (dracula t) @ brightOther (dracula t)) \<longrightarrow>
            map_of (colors (transformSoft desat t)) key = Some (Str (desat (Str s)))) \<and>
         length (tokenColors (transformSoft desat t)) = length (tokenColors t) \<and>
         (i < length (tokenColors t) \<and> foreground (settings (tokenColors t ! i)) = Str s \<and>
          s \<in> set (ansi (dracula t) @ brightOther (dracula t)) \<longrightarrow>
            foreground (settings (tokenColors (transformSoft desat t) ! i)) = Str (desat (Str s)))"
  using soft_desaturates [OF assms, of key s desat]
  by (simp add: tokenColors_transformSoft soft_token_foreground brightColors_def)

theorem soft_desaturates_bright_witness:
  "wf_object (colors sample_base) \<and>
   map_of (colors sample_base) ''statusBar.foreground'' = Some (Str ''#FF5555'') \<and>
   ''#FF5555'' \<in> set (ansi (dracula sample_base) @ brightOther (dracula sample_base)) \<and>
   map_of (colors (transformSoft sample_desaturate sample_base)) ''statusBar.foreground''
     = Some (Str ''#ee6666'') \<and>
   length (tokenColors (transformSoft sample_desaturate sample_base)) = 2 \<and>
   foreground (settings (tokenColors sample_base ! 0)) = Str ''#6272A4'' \<and>
   ''#6272A4'' \<in> set (ansi (dracula sample_base) @ brightOther (dracula sample_base)) \<and>
   foreground (settings (tokenColors (transformSoft sample_desaturate sample_base) ! 0))
     = Str ''#7b7f8b''"
proof -
  have wf: "wf_object (colors sample_base)"
    unfolding sample_base_colors by code_simp
  have inp: "map_of (colors sample_base) ''statusBar.foreground'' = Some (Str ''#FF5555'')"
    unfolding sample_base_colors by code_simp
  have br: "ansi (dracula sample_base) @ brightOther (dracula sample_base)
      = [''#21222C'', ''#FF5555'', ''#6272A4'', ''#E9F284'']"
    using sample_base_bright by (simp only: brightColors_def)
  have m1: "''#FF5555'' \<in> set (ansi (dracula sample_base) @ brightOther (dracula sample_base))"
    unfolding br by code_simp
  have m2: "''#6272A4'' \<in> set (ansi (dracula sample_base) @ brightOther (dracula sample_base))"
    unfolding br by code_simp
  have len: "length (tokenColors sample_base) = 2"
    unfolding sample_base_tokens by code_simp
  have i0: "(0::nat) < length (tokenColors sample_base)"
    unfolding len by simp
  have fg: "foreground (settings (tokenColors sample_base ! 0)) = Str ''#6272A4''"
    unfolding sample_base_tokens by code_simp
  have d1: "sample_desaturate (Str ''#FF5555'') = ''#ee6666''" by code_simp
  have d2: "sample_desaturate (Str ''#6272A4'') = ''#7b7f8b''" by code_simp
  from soft_desaturates_bright [OF wf, of "''statusBar.foreground''" "''#FF5555''" sample_desaturate 0]
    inp m1
  have a: "map_of (colors (transformSoft sample_desaturate sample_base)) ''statusBar.foreground''
     = Some (Str ''#ee6666'')"
    and l: "length (tokenColors (transformSoft sample_desaturate sample_base)) = 2"
    unfolding d1 len by blast+
  from soft_desaturates_bright [OF wf, of "''statusBar.foreground''" "''#6272A4''" sample_desaturate 0]
    i0 fg m2
  have b: "foreground (settings (tokenColors (transformSoft sample_desaturate sample_base) ! 0))
     = Str ''#7b7f8b''"
    unfolding d2 by blast
  from wf inp m1 a l fg m2 b show ?thesis by (intro conjI)
qed

text \<open>
  C4. A colour that is not in \<^verbatim>\<open>brightColors\<close> is the same in the soft theme: for every
  key of the input whose value is not \<^verbatim>\<open>undefined\<close>, and so for every key of the
  sanitized base that the pipeline hands to the transform. A value that carries an
  alpha suffix after its seven characters \<^verbatim>\<open>#RRGGBB\<close> is no member of a palette whose
  strings all have seven characters, and is kept as it is.
\<close>

theorem soft_keeps_other_colors:
  "(map_of (colors t) key = Some v \<and> v \<noteq> Undefined \<and>
    \<not> includes_val (ansi (dracula t) @ brightOther (dracula t)) v \<longrightarrow>
      map_of (colors (transformSoft desat t)) key = Some v) \<and>
   (map_of (colors (v_base (generate desat loaded))) key = Some v \<and>
    \<not> includes_val (ansi (dracula loaded) @ brightOther (dracula loaded)) v \<longrightarrow>
      map_of (colors (v_soft (generate desat loaded))) key = Some v) \<and>
   ((\<forall>c \<in> set (ansi (dracula t) @ brightOther (dracula t)). length c = 7) \<and>
    map_of (colors t) key = Some (Str (rgb @ alpha)) \<and> length rgb = 7 \<and> alpha \<noteq> [] \<longrightarrow>
      map_of (colors (transformSoft desat t)) key = Some (Str (rgb @ alpha)))"
proof (intro conjI impI)
  assume "map_of (colors t) key = Some v \<and> v \<noteq> Undefined \<and>
    \<not> includes_val (ansi (dracula t) @ brightOther (dracula t)) v"
  then show "map_of (colors (transformSoft desat t)) key = Some v"
    by (simp add: soft_keeps brightColors_def)
next
  let ?b = "v_base (generate desat loaded)"
  assume a: "map_of (colors ?b) key = Some v \<and>
    \<not> includes_val (ansi (dracula loaded) @ brightOther (dracula loaded)) v"
  then have "v \<noteq> Undefined" using base_defined by blast
  moreover have "brightColors ?b = ansi (dracula loaded) @ brightOther (dracula loaded)"
    by (simp add: brightColors_def v_base_generate)
  ultimately have "map_of (colors (transformSoft desat ?b)) key = Some v"
    using a by (simp add: soft_keeps)
  then show "map_of (colors (v_soft (generate desat loaded))) key = Some v"
    by (simp only: v_soft_generate)
next
  assume a: "(\<forall>c \<in> set (ansi (dracula t) @ brightOther (dracula t)). length c = 7) \<and>
    map_of (colors t) key = Some (Str (rgb @ alpha)) \<and> length rgb = 7 \<and> alpha \<noteq> []"
  then have "length (rgb @ alpha) \<noteq> 7" by simp
  with a have "rgb @ alpha \<notin> set (brightColors t)"
    unfolding brightColors_def by blast
  then have "\<not> includes_val (brightColors t) (Str (rgb @ alpha))" by simp
  with a show "map_of (colors (transformSoft desat t)) key = Some (Str (rgb @ alpha))"
    by (simp add: soft_keeps)
qed

text \<open>
  On the sample, \<^verbatim>\<open>#282A36\<close> is not a bright colour, and \<^verbatim>\<open>#FF555580\<close> is the bright
  \<^verbatim>\<open>#FF5555\<close> with the alpha suffix \<^verbatim>\<open>80\<close>; both stay.
\<close>

theorem soft_keeps_other_colors_witness:
  "map_of (colors sample_base) ''editor.background'' = Some (Str ''#282A36'') \<and>
   \<not> includes_val (ansi (dracula sample_base) @ brightOther (dracula sample_base)) (Str ''#282A36'') \<and>
   map_of (colors (transformSoft sample_desaturate sample_base)) ''editor.background''
     = Some (Str ''#282A36'') \<and>
   map_of (colors (v_soft (generate sample_desaturate sample_loaded))) ''editor.background''
     = Some (Str ''#282A36'') \<and>
   map length (ansi (dracula sample_base) @ brightOther (dracula sample_base)) = [7, 7, 7, 7] \<and>
   map_of (colors sample_base) ''editor.findMatchBackground'' = Some (Str (''#FF5555'' @ ''80'')) \<and>
   map_of (colors (transformSoft sample_desaturate sample_base)) ''editor.findMatchBackground''
     = Some (Str (''#FF5555'' @ ''80''))"
proof -
  have br: "ansi (dracula sample_base) @ brightOther (dracula sample_base)
      = [''#21222C'', ''#FF5555'', ''#6272A4'', ''#E9F284'']"
    using sample_base_bright by (simp only: brightColors_def)
  have br': "ansi (dracula sample_loaded) @ brightOther (dracula sample_loaded)
      = ansi (dracula sample_base) @ brightOther (dracula sample_base)"
    by (simp only: sample_base_dracula)
  have inp: "map_of (colors sample_base) ''editor.background'' = Some (Str ''#282A36'')"
    unfolding sample_base_colors by code_simp
  have inp': "map_of (colors (v_base (generate sample_desaturate sample_loaded)))
      ''editor.background'' = Some (Str ''#282A36'')"
    using inp by (simp only: sample_base_def)
  have nb: "\<not> includes_val (ansi (dracula sample_base) @ brightOther (dracula sample_base)) (Str ''#282A36'')"
    unfolding br by code_simp
  have nb': "\<not> includes_val (ansi (dracula sample_loaded) @ brightOther (dracula sample_loaded)) (Str ''#282A36'')"
    unfolding br' by (rule nb)
  have df: "Str ''#282A36'' \<noteq> Undefined" by simp
  have len: "\<forall>c \<in> set (ansi (dracula sample_base) @ brightOther (dracula sample_base)). length c = 7"
    unfolding br by code_simp
  have al: "map_of (colors sample_base) ''editor.findMatchBackground'' = Some (Str (''#FF5555'' @ ''80''))"
    unfolding sample_base_colors by code_simp
  have lens: "map length (ansi (dracula sample_base) @ brightOther (dracula sample_base)) = [7, 7, 7, 7]"
    unfolding br by simp
  have l7: "length ''#FF5555'' = 7" by code_simp
  have ne: "''80'' \<noteq> []" by simp
  note thm1 = soft_keeps_other_colors [of sample_base "''editor.background''" "Str ''#282A36''"
      sample_desaturate sample_loaded "''#FF5555''" "''80''"]
  note thm2 = soft_keeps_other_colors [of sample_base "''editor.findMatchBackground''" "Str ''#282A36''"
      sample_desaturate sample_loaded "''#FF5555''" "''80''"]
  from thm1 inp df nb
  have a: "map_of (colors (transformSoft sample_desaturate sample_base)) ''editor.background''
     = Some (Str ''#282A36'')" by blast
  from thm1 inp' nb'
  have b: "map_of (colors (v_soft (generate sample_desaturate sample_loaded))) ''editor.background''
     = Some (Str ''#282A36'')" by blast
  from thm2 len al l7 ne
  have c: "map_of (colors (transformSoft sample_desaturate sample_base)) ''editor.findMatchBackground''
     = Some (Str (''#FF5555'' @ ''80''))" by blast
  from inp nb a b lens al c show ?thesis by (intro conjI)
qed

text \<open>
  C5. The loop after \<^verbatim>\<open>load\<close> deletes from the colours of the base theme every key whose
  loaded value is falsy (\<^verbatim>\<open>null\<close>, \<^verbatim>\<open>undefined\<close> or the empty string), keeps every other
  key with its value, and adds none; the rest of the theme is as loaded.
\<close>

theorem sanitize_removes_falsy:
  "(map_of (colors loaded) key = Some v \<and> falsy v \<longrightarrow>
      key \<notin> set (object_keys (colors (v_base (generate desat loaded))))) \<and>
   (map_of (colors loaded) key = Some v \<and> \<not> falsy v \<longrightarrow>
      map_of (colors (v_base (generate desat loaded))) key = Some v) \<and>
   (key \<notin> set (object_keys (colors loaded)) \<longrightarrow>
      key \<notin> set (object_keys (colors (v_base (generate desat loaded))))) \<and>
   dracula (v_base (generate desat loaded)) = dracula loaded \<and>
   tokenColors (v_base (generate desat loaded)) = tokenColors loaded"
  by (simp add: v_base_generate in_keys_iff map_of_sanitize)

theorem sanitize_removes_falsy_witness:
  "map_of (colors sample_loaded) ''editorCursor.background'' = Some Null \<and>
   ''editorCursor.background'' \<notin> set (object_keys (colors (v_base (generate sample_desaturate sample_loaded)))) \<and>
   map_of (colors sample_loaded) ''tab.activeBorderTop'' = Some (Str []) \<and>
   ''tab.activeBorderTop'' \<notin> set (object_keys (colors (v_base (generate sample_desaturate sample_loaded)))) \<and>
   map_of (colors sample_loaded) ''button.background'' = Some (Str ''#6272A4'') \<and>
   map_of (colors (v_base (generate sample_desaturate sample_loaded))) ''button.background''
     = Some (Str ''#6272A4'')"
proof -
  have i1: "map_of (colors sample_loaded) ''editorCursor.background'' = Some Null"
    by code_simp
  have i2: "map_of (colors sample_loaded) ''tab.activeBorderTop'' = Some (Str [])"
    by code_simp
  have i3: "map_of (colors sample_loaded) ''button.background'' = Some (Str ''#6272A4'')"
    by code_simp
  have f1: "falsy Null" and f2: "falsy (Str [])" and f3: "\<not> falsy (Str ''#6272A4'')"
    by simp_all
  from sanitize_removes_falsy [of sample_loaded "''editorCursor.background''" Null sample_desaturate]
    i1 f1
  have a: "''editorCursor.background'' \<notin>
      set (object_keys (colors (v_base (generate sample_desaturate sample_loaded))))"
    by blast
  from sanitize_removes_falsy [of sample_loaded "''tab.activeBorderTop''" "Str []" sample_desaturate]
    i2 f2
  have b: "''tab.activeBorderTop'' \<notin>
      set (object_keys (colors (v_base (generate sample_desaturate sample_loaded))))"
    by blast
  from sanitize_removes_falsy [of sample_loaded "''button.background''" "Str ''#6272A4''" sample_desaturate]
    i3 f3
  have c: "map_of (colors (v_base (generate sample_desaturate sample_loaded))) ''button.background''
     = Some (Str ''#6272A4'')"
    by blast
  from i1 a i2 b i3 c show ?thesis by (intro conjI)
qed

text \<open>
  C6. Neither transform changes its input. With the themes as objects in a store, and
  the input theme readable at the reference \<open>a\<close>, each transform returns; every cell
  that the store had before the call is the same after it, so the input theme reads as
  before; every object that can be reached from the theme returned was created by the
  call, and no object can be reached from both the input and the result; and the theme
  returned reads as the value of the transform.
\<close>

theorem transforms_leave_input_alone:
  assumes "read_theme h a = Some t"
  shows "(\<exists>h' r. transformSoft_heap desat h a = Some (h', r) \<and>
            take (length h) h' = h \<and> read_theme h' a = Some t \<and>
            (\<forall>x. reachable h' r x \<longrightarrow> length h \<le> x) \<and>
            (\<forall>x. \<not> (reachable h' a x \<and> reachable h' r x)) \<and>
            read_theme h' r = Some (transformSoft desat t)) \<and>
         (\<exists>h' r. transformHighContrast_heap h a = Some (h', r) \<and>
            take (length h) h' = h \<and> read_theme h' a = Some t \<and>
            (\<forall>x. reachable h' r x \<longrightarrow> length h \<le> x) \<and>
            (\<forall>x. \<not> (reachable h' a x \<and> reachable h' r x)) \<and>
            read_theme h' r = Some (transformHighContrast t))"
  using soft_heap_frame [OF assms] high_contrast_heap_frame [OF assms] by (intro conjI)

text \<open>
  On the sample store the soft transform appends the eleven cells of the copy and the
  array that \<^verbatim>\<open>map\<close> returns; the desaturated colours are in the new cells only.
\<close>

theorem transforms_leave_input_alone_witness:
  "read_theme sample_store 10 = Some sample_small \<and>
   transformSoft_heap sample_desaturate sample_store 10 =
     Some (sample_store @
       [StrArr [''#282A36''], StrArr [''#FF5555''], StrArr [], StrArr [],
        DraculaObj 11 12 13 14,
        ColorsObj [(''editor.background'', Str ''#282A36''), (''statusBar.foreground'', Str ''#ee6666'')],
        StrArr [''invalid''],
        SettingsObj \<lparr>foreground = Str ''#ee6666'', background = Undefined, fontStyle = Undefined\<rparr>,
        TokenObj (Str ''Invalid'') 17 18,
        TokenArr [19],
        ThemeObj 15 16 22,
        TokenArr [19]], 21) \<and>
   (\<exists>h' r. transformSoft_heap sample_desaturate sample_store 10 = Some (h', r) \<and>
      take (length sample_store) h' = sample_store \<and> read_theme h' 10 = Some sample_small \<and>
      (\<forall>x. reachable h' r x \<longrightarrow> length sample_store \<le> x) \<and>
      (\<forall>x. \<not> (reachable h' 10 x \<and> reachable h' r x)) \<and>
      read_theme h' r = Some (transformSoft sample_desaturate sample_small)) \<and>
   (\<exists>h' r. transformHighContrast_heap sample_store 10 = Some (h', r) \<and>
      take (length sample_store) h' = sample_store \<and> read_theme h' 10 = Some sample_small \<and>
      (\<forall>x. reachable h' r x \<longrightarrow> length sample_store \<le> x) \<and>
      (\<forall>x. \<not> (reachable h' 10 x \<and> reachable h' r x)) \<and>
      read_theme h' r = Some (transformHighContrast sample_small))"
proof -
  have rd: "read_theme sample_store 10 = Some sample_small"
    by code_simp
  have run: "transformSoft_heap sample_desaturate sample_store 10 =
     Some (sample_store @
       [StrArr [''#282A36''], StrArr [''#FF5555''], StrArr [], StrArr [],
        DraculaObj 11 12 13 14,
        ColorsObj [(''editor.background'', Str ''#282A36''), (''statusBar.foreground'', Str ''#ee6666'')],
        StrArr [''invalid''],
        SettingsObj \<lparr>foreground = Str ''#ee6666'', background = Undefined, fontStyle = Undefined\<rparr>,
        TokenObj (Str ''Invalid'') 17 18,
        TokenArr [19],
        ThemeObj 15 16 22,
        TokenArr [19]], 21)"
    by code_simp
  from rd run transforms_leave_input_alone [OF rd, of sample_desaturate]
  show ?thesis by (intro conjI) blast+
qed

text \<open>
  C7 (as the code has it). \<^verbatim>\<open>withAlphaType\<close> gives no \<^verbatim>\<open>resolve\<close>, so the length of an
  \<^verbatim>\<open>!alpha\<close> sequence is not checked: a sequence of any length loads as
  \<^verbatim>\<open>hexRGB + alpha\<close> of its first two elements, a missing one being \<^verbatim>\<open>undefined\<close>, and two
  strings load as the one followed by the other.
\<close>

theorem alpha_sequence_any_length:
  "construct_tagged withAlphaType (Sequence xs) = Inr (js_plus (element xs 0) (element xs 1)) \<and>
   construct_tagged withAlphaType (Sequence [Str hexRGB, Str alpha]) = Inr (PStr (hexRGB @ alpha))"
  by (simp add: construct_tagged_def withAlphaType_def element_def)

theorem alpha_sequence_any_length_witness:
  "construct_tagged withAlphaType (Sequence []) = Inr PNaN \<and>
   construct_tagged withAlphaType (Sequence [Str ''#FF5555'', Str ''80'', Str ''00''])
     = Inr (PStr ''#FF555580'') \<and>
   construct_tagged withAlphaType (Sequence [Str ''#FF5555'', Str ''80'']) = Inr (PStr ''#FF555580'')"
proof -
  have e0: "js_plus (element [] 0) (element [] 1) = PNaN"
    by (simp add: element_def)
  have e3: "js_plus (element [Str ''#FF5555'', Str ''80'', Str ''00''] 0)
              (element [Str ''#FF5555'', Str ''80'', Str ''00''] 1) = PStr ''#FF555580''"
    by (simp add: element_def)
  have e2: "PStr (''#FF5555'' @ ''80'') = PStr ''#FF555580''" by simp
  from alpha_sequence_any_length [of "[]" "''#FF5555''" "''80''"]
    alpha_sequence_any_length [of "[Str ''#FF5555'', Str ''80'', Str ''00'']" "''#FF5555''" "''80''"]
  show ?thesis unfolding e0 e3 e2 by (intro conjI) blast+
qed

text \<open>
  The claim as the specification states it fails: a sequence of one element is not
  refused, it loads as a string that ends in \<^verbatim>\<open>undefined\<close>.
\<close>

theorem alpha_arity_counterexample:
  "length [Str ''#FF5555''] \<noteq> 2 \<and>
   construct_tagged withAlphaType (Sequence [Str ''#FF5555'']) = Inr (PStr ''#FF5555undefined'')"
  by (simp add: construct_tagged_def withAlphaType_def element_def)




text \<open>
  C9. \<^verbatim>\<open>Object.assign\<close> adds the keys of the override table that the input does not
  have: a key of the table that is no key of the input colours is a key of the
  high-contrast colours, with the table's value.
\<close>

theorem overrides_insert_missing_keys:
  "map_of overrides key = Some v \<Longrightarrow> key \<notin> set (object_keys (colors t)) \<Longrightarrow>
   key \<in> set (object_keys (colors (transformHighContrast t))) \<and>
   js_get (colors (transformHighContrast t)) key = v"
  by (simp add: in_keys_iff js_get_def map_of_high_contrast)

text \<open>The sanitized sample has no \<^verbatim>\<open>focusBorder\<close>; its high-contrast theme has.\<close>

theorem overrides_insert_missing_keys_witness:
  "map_of overrides ''focusBorder'' = Some (Str ''#FFFFFF'') \<and>
   ''focusBorder'' \<notin> set (object_keys (colors sample_base)) \<and>
   ''focusBorder'' \<in> set (object_keys (colors (transformHighContrast sample_base))) \<and>
   js_get (colors (transformHighContrast sample_base)) ''focusBorder'' = Str ''#FFFFFF''"
proof -
  have tab: "map_of overrides ''focusBorder'' = Some (Str ''#FFFFFF'')"
    unfolding map_of_overrides by code_simp
  have nk: "''focusBorder'' \<notin> set (object_keys (colors sample_base))"
    unfolding sample_base_colors by code_simp
  from overrides_insert_missing_keys [OF tab nk] tab nk show ?thesis by (intro conjI) blast+
qed

text \<open>
  C10. The high-contrast transform changes the colour mapping only: the token colours
  and the palette groups of its result are those of the input.
\<close>

theorem high_contrast_only_colors:
  "tokenColors (transformHighContrast t) = tokenColors t \<and>
   dracula (transformHighContrast t) = dracula t"
  by (simp add: transformHighContrast_def json_copy_def Let_def)

theorem high_contrast_only_colors_witness:
  "tokenColors (transformHighContrast sample_base) = tokenColors sample_loaded \<and>
   dracula (transformHighContrast sample_base) = dracula sample_loaded"
  using high_contrast_only_colors [of sample_base]
  by (simp only: sample_base_tokens sample_base_dracula)

end
